theory Spec2Isabelle
  imports Main "HOL-Library.Sublist" "HOL-Library.AList"
begin

section \<open>Data model\<close>

text \<open>
  The liaison of \<^verbatim>\<open>pkg/mutagen/liaison.go\<close> builds session creation specifications
  from a Compose project (\<^verbatim>\<open>processProject\<close>) and reconciles them with the sessions
  the Mutagen daemon holds (\<^verbatim>\<open>reconcileSessions\<close>). Go maps are association lists
  here, in the order in which the run iterates over them (Go leaves that order open, so
  every order is a possible input); a map that is only looked up is a partial function.
\<close>

datatype protocol = Protocol_Local | Protocol_SSH | Protocol_Docker

datatype kind = Kind_Forwarding | Kind_Synchronization

text \<open>\<^verbatim>\<open>url.URL\<close>: the liaison reads the protocol and the path only.\<close>

record url =
  Protocol :: protocol
  Host :: string
  Path :: string

text \<open>
  \<^verbatim>\<open>forwarding.Configuration\<close> and \<^verbatim>\<open>synchronization.Configuration\<close>: sparse records,
  every field optional; a field is addressed by its name.
\<close>

type_synonym configuration = "string \<rightharpoonup> string"

text \<open>
  The creation specifications of the two session services. The fields shared by both
  (\<^verbatim>\<open>Name\<close>, \<^verbatim>\<open>Labels\<close>, \<^verbatim>\<open>Configuration\<close>) form the base record.
\<close>

record creationSpecification =
  SpecName :: string
  Labels :: "(string \<times> string) list"
  Configuration :: configuration

record forwardingSpecification = creationSpecification +
  Source :: url
  Destination :: url
  ConfigurationSource :: configuration
  ConfigurationDestination :: configuration

record synchronizationSpecification = creationSpecification +
  Alpha :: url
  Beta :: url
  ConfigurationAlpha :: configuration
  ConfigurationBeta :: configuration

text \<open>A session as the daemon lists it (\<^verbatim>\<open>state.Session\<close>).\<close>

record session =
  Identifier :: string
  Name :: string

record forwardingSession = session +
  SessionSource :: url
  SessionDestination :: url

record synchronizationSession = session +
  SessionAlpha :: url
  SessionBeta :: url

text \<open>\<^verbatim>\<open>selection.Selection\<close>: the liaison sets exactly one of its fields.\<close>

datatype selection = LabelSelector string | Specifications "string list"

text \<open>The liaison's own state: the two specification maps.\<close>

record liaison =
  forwarding :: "(string \<times> forwardingSpecification) list"
  synchronization :: "(string \<times> synchronizationSpecification) list"

subsection \<open>Errors\<close>

text \<open>
  An error value is the format string of the \<^verbatim>\<open>fmt.Errorf\<close> (or the text of the
  \<^verbatim>\<open>errors.New\<close>) that makes it, with the values formatted into it; a wrapped cause
  is the cause's text.
\<close>

datatype error = Errorf string "string list"

text \<open>
  What a call of a Go function ends in: it returns (\<open>Ok\<close>), it returns an error
  (\<open>Err\<close>), or it panics.
\<close>

datatype 'a result = Ok 'a | Err error | Panic string

subsection \<open>The collaborators\<close>

text \<open>
  Every call that leaves the liaison, with what came back. A run's trace is the list of
  its exchanges in the order they were made.
\<close>

datatype call =
    Docker_Info
  | Daemon_Connect
  | Forwarding_List selection
  | Synchronization_List selection
  | TerminateWithSelection kind selection
  | ResumeWithSelection kind selection
  | PauseWithSelection kind selection
  | ListWithSelection kind selection bool
  | FlushWithSelection selection bool
  | Forwarding_Create forwardingSpecification
  | Synchronization_Create synchronizationSpecification

datatype reply =
    Failed string
  | Succeeded
  | Created string
  | ForwardingStates "forwardingSession list"
  | SynchronizationStates "synchronizationSession list"
  | Metadata string

type_synonym exchange = "call \<times> reply"

text \<open>
  The Mutagen daemon, as a deterministic machine over its own state \<open>'d\<close>: connecting
  and listing read the state, a command (terminate, resume, pause, list-and-print,
  flush) and a creation may change it. \<open>ListingValid\<close> is the listing response's
  \<^verbatim>\<open>EnsureValid\<close>.
\<close>

record 'd daemon =
  Connect :: "'d \<Rightarrow> string option"
  ForwardingList :: "'d \<Rightarrow> selection \<Rightarrow> string + forwardingSession list"
  ForwardingListingValid :: "forwardingSession list \<Rightarrow> string option"
  SynchronizationList :: "'d \<Rightarrow> selection \<Rightarrow> string + synchronizationSession list"
  SynchronizationListingValid :: "synchronizationSession list \<Rightarrow> string option"
  Command :: "'d \<Rightarrow> call \<Rightarrow> string option \<times> 'd"
  ForwardingCreate :: "'d \<Rightarrow> forwardingSpecification \<Rightarrow> (string + string) \<times> 'd"
  SynchronizationCreate :: "'d \<Rightarrow> synchronizationSpecification \<Rightarrow> (string + string) \<times> 'd"

text \<open>
  What the liaison uses and this file's sources do not hold: the package's constants and
  helpers declared in its other files, and the Docker client. They are parameters.
\<close>

record helpers =
  sessionSidecarLabelKey :: string
  chopSidecarIdentifier :: "string \<Rightarrow> string"
  reifySidecarURLIfNecessary :: "url \<Rightarrow> string \<Rightarrow> string \<Rightarrow> url"
  DaemonHost :: string
  forwardingSessionCurrent :: "forwardingSession \<Rightarrow> forwardingSpecification \<Rightarrow> bool"
  synchronizationSessionCurrent :: "synchronizationSession \<Rightarrow> synchronizationSpecification \<Rightarrow> bool"

section \<open>Session reconciliation\<close>

text \<open>
  The first loops of \<^verbatim>\<open>reconcileSessions\<close> over a listing: a session whose name has no
  specification is pruned, one whose name an earlier session took is pruned, any other
  becomes the session of its name. One definition serves both session kinds: the two
  loops of the source differ in the types only.
\<close>

fun classifySessions ::
  "(string \<rightharpoonup> 'spec) \<Rightarrow> ('a session_scheme) list \<Rightarrow> string list \<Rightarrow>
   (string \<rightharpoonup> 'a session_scheme) \<Rightarrow> string list \<times> (string \<rightharpoonup> 'a session_scheme)" where
  "classifySessions desired [] pruneList nameToSession = (pruneList, nameToSession)"
| "classifySessions desired (state # states) pruneList nameToSession =
     (if desired (Name state) = None then
        classifySessions desired states (pruneList @ [Identifier state]) nameToSession
      else if nameToSession (Name state) \<noteq> None then
        classifySessions desired states (pruneList @ [Identifier state]) nameToSession
      else
        classifySessions desired states pruneList (nameToSession(Name state \<mapsto> state)))"

text \<open>
  The next loops, over the specifications: one with no session is created; one whose
  session is not current has the session pruned and is created again.
\<close>

fun identifyCreations ::
  "('a session_scheme \<Rightarrow> 'spec \<Rightarrow> bool) \<Rightarrow> (string \<rightharpoonup> 'a session_scheme) \<Rightarrow>
   (string \<times> 'spec) list \<Rightarrow> string list \<Rightarrow> 'spec list \<Rightarrow> string list \<times> 'spec list" where
  "identifyCreations current nameToSession [] pruneList createSpecifications =
     (pruneList, createSpecifications)"
| "identifyCreations current nameToSession ((name, specification) # rest) pruneList
     createSpecifications =
     (case nameToSession name of
        None \<Rightarrow>
          identifyCreations current nameToSession rest pruneList
            (createSpecifications @ [specification])
      | Some existing \<Rightarrow>
          if \<not> current existing specification then
            identifyCreations current nameToSession rest (pruneList @ [Identifier existing])
              (createSpecifications @ [specification])
          else identifyCreations current nameToSession rest pruneList createSpecifications)"

text \<open>Classification and diff of one session kind: the prune list and the create list.\<close>

definition planSessions ::
  "('a session_scheme \<Rightarrow> 'spec \<Rightarrow> bool) \<Rightarrow> (string \<times> 'spec) list \<Rightarrow>
   ('a session_scheme) list \<Rightarrow> string list \<times> 'spec list" where
  "planSessions current specifications states =
     (case classifySessions (map_of specifications) states [] Map.empty of
        (pruneList, nameToSession) \<Rightarrow>
          identifyCreations current nameToSession specifications pruneList [])"

text \<open>A command sent to the daemon, with the exchange it leaves in the trace.\<close>

definition invoke :: "'d daemon \<Rightarrow> call \<Rightarrow> 'd \<Rightarrow> string option \<times> 'd \<times> exchange list" where
  "invoke dm c d =
     (case Command dm d c of
        (None, d') \<Rightarrow> (None, d', [(c, Succeeded)])
      | (Some e, d') \<Rightarrow> (Some e, d', [(c, Failed e)]))"

text \<open>Pruning one kind's list: a single termination call, and none for an empty list.\<close>

definition pruneSessions ::
  "'d daemon \<Rightarrow> kind \<Rightarrow> string list \<Rightarrow> 'd \<Rightarrow> string option \<times> 'd \<times> exchange list" where
  "pruneSessions dm k pruneList d =
     (if length pruneList > 0 then
        invoke dm (TerminateWithSelection k (Specifications pruneList)) d
      else (None, d, []))"

text \<open>The creation loops: one call for each specification, stopping at the first failure.\<close>

fun createForwardingSessions ::
  "'d daemon \<Rightarrow> forwardingSpecification list \<Rightarrow> 'd \<Rightarrow> error option \<times> 'd \<times> exchange list" where
  "createForwardingSessions dm [] d = (None, d, [])"
| "createForwardingSessions dm (specification # rest) d =
     (case ForwardingCreate dm d specification of
        (Inl e, d') \<Rightarrow>
          (Some (Errorf ''unable to create forwarding session (%s): %w''
                   [SpecName specification, e]),
           d', [(Forwarding_Create specification, Failed e)])
      | (Inr s, d') \<Rightarrow>
          (case createForwardingSessions dm rest d' of
             (r, d'', t) \<Rightarrow> (r, d'', (Forwarding_Create specification, Created s) # t)))"

fun createSynchronizationSessions ::
  "'d daemon \<Rightarrow> synchronizationSpecification list \<Rightarrow> string list \<Rightarrow> 'd \<Rightarrow>
   (error + string list) \<times> 'd \<times> exchange list" where
  "createSynchronizationSessions dm [] newSynchronizationSessions d =
     (Inr newSynchronizationSessions, d, [])"
| "createSynchronizationSessions dm (specification # rest) newSynchronizationSessions d =
     (case SynchronizationCreate dm d specification of
        (Inl e, d') \<Rightarrow>
          (Inl (Errorf ''unable to create synchronization session (%s): %w''
                  [SpecName specification, e]),
           d', [(Synchronization_Create specification, Failed e)])
      | (Inr s, d') \<Rightarrow>
          (case createSynchronizationSessions dm rest (newSynchronizationSessions @ [s]) d' of
             (r, d'', t) \<Rightarrow> (r, d'', (Synchronization_Create specification, Created s) # t)))"

text \<open>
  The second half of \<^verbatim>\<open>reconcileSessions\<close>: prune, resume, create, flush. Every failing
  call returns at once.
\<close>

definition applyReconciliation ::
  "'d daemon \<Rightarrow> selection \<Rightarrow> string list \<Rightarrow> string list \<Rightarrow> forwardingSpecification list \<Rightarrow>
   synchronizationSpecification list \<Rightarrow> 'd \<Rightarrow> unit result \<times> 'd \<times> exchange list" where
  "applyReconciliation dm projectSelection forwardingPruneList synchronizationPruneList
     forwardingCreateSpecifications synchronizationCreateSpecifications d =
     (case pruneSessions dm Kind_Forwarding forwardingPruneList d of
        (Some e, d1, t1) \<Rightarrow>
          (Err (Errorf ''unable to prune orphaned/duplicate/stale forwarding sessions: %w'' [e]),
           d1, t1)
      | (None, d1, t1) \<Rightarrow>
     (case pruneSessions dm Kind_Synchronization synchronizationPruneList d1 of
        (Some e, d2, t2) \<Rightarrow>
          (Err (Errorf ''unable to prune orphaned/duplicate/stale synchronization sessions: %w''
                  [e]),
           d2, t1 @ t2)
      | (None, d2, t2) \<Rightarrow>
     (case invoke dm (ResumeWithSelection Kind_Forwarding projectSelection) d2 of
        (Some e, d3, t3) \<Rightarrow>
          (Err (Errorf ''forwarding resumption failed: %w'' [e]), d3, t1 @ t2 @ t3)
      | (None, d3, t3) \<Rightarrow>
     (case invoke dm (ResumeWithSelection Kind_Synchronization projectSelection) d3 of
        (Some e, d4, t4) \<Rightarrow>
          (Err (Errorf ''synchronization resumption failed: %w'' [e]), d4, t1 @ t2 @ t3 @ t4)
      | (None, d4, t4) \<Rightarrow>
     (case createForwardingSessions dm forwardingCreateSpecifications d4 of
        (Some err, d5, t5) \<Rightarrow> (Err err, d5, t1 @ t2 @ t3 @ t4 @ t5)
      | (None, d5, t5) \<Rightarrow>
     (case createSynchronizationSessions dm synchronizationCreateSpecifications [] d5 of
        (Inl err, d6, t6) \<Rightarrow> (Err err, d6, t1 @ t2 @ t3 @ t4 @ t5 @ t6)
      | (Inr newSynchronizationSessions, d6, t6) \<Rightarrow>
          if length newSynchronizationSessions > 0 then
            (case invoke dm (FlushWithSelection (Specifications newSynchronizationSessions) False)
                    d6 of
               (Some e, d7, t7) \<Rightarrow>
                 (Err (Errorf ''unable to flush synchronization session(s): %w'' [e]),
                  d7, t1 @ t2 @ t3 @ t4 @ t5 @ t6 @ t7)
             | (None, d7, t7) \<Rightarrow> (Ok (), d7, t1 @ t2 @ t3 @ t4 @ t5 @ t6 @ t7))
          else (Ok (), d6, t1 @ t2 @ t3 @ t4 @ t5 @ t6)))))))"

text \<open>
  The first step of \<^verbatim>\<open>reconcileSessions\<close>: the sidecar URLs of every stored
  specification are made concrete and its labels are set. The specifications are held
  by pointer, so the liaison's maps change.
\<close>

definition reifyForwarding ::
  "helpers \<Rightarrow> string \<Rightarrow> string \<Rightarrow> forwardingSpecification \<Rightarrow> forwardingSpecification" where
  "reifyForwarding h dockerHost sidecarID specification =
     specification
       \<lparr>Source := reifySidecarURLIfNecessary h (Source specification) dockerHost sidecarID,
        Destination :=
          reifySidecarURLIfNecessary h (Destination specification) dockerHost sidecarID,
        Labels := [(sessionSidecarLabelKey h, chopSidecarIdentifier h sidecarID)]\<rparr>"

definition reifySynchronization ::
  "helpers \<Rightarrow> string \<Rightarrow> string \<Rightarrow> synchronizationSpecification \<Rightarrow>
   synchronizationSpecification" where
  "reifySynchronization h dockerHost sidecarID specification =
     specification
       \<lparr>Alpha := reifySidecarURLIfNecessary h (Alpha specification) dockerHost sidecarID,
        Beta := reifySidecarURLIfNecessary h (Beta specification) dockerHost sidecarID,
        Labels := [(sessionSidecarLabelKey h, chopSidecarIdentifier h sidecarID)]\<rparr>"

definition reifySpecifications :: "helpers \<Rightarrow> string \<Rightarrow> liaison \<Rightarrow> liaison" where
  "reifySpecifications h sidecarID l =
     (let dockerHost = DaemonHost h in
      l\<lparr>forwarding :=
          map (\<lambda>(name, specification).
                 (name, reifyForwarding h dockerHost sidecarID specification))
            (forwarding l),
        synchronization :=
          map (\<lambda>(name, specification).
                 (name, reifySynchronization h dockerHost sidecarID specification))
            (synchronization l)\<rparr>)"

text \<open>
  \<^verbatim>\<open>reconcileSessions\<close>. The result is what it returns, the liaison after it, the
  daemon's state after it and the trace of its calls. Classification and diff run in the
  source's order: both listings are classified, then both specification maps are
  walked. The progress lines the source prints and the closing of the connection on
  return are not part of the model; a listing's error text is the text left after the
  source peels the RPC layer away.
\<close>

definition reconcileSessions ::
  "helpers \<Rightarrow> 'd daemon \<Rightarrow> liaison \<Rightarrow> string \<Rightarrow> 'd \<Rightarrow>
   unit result \<times> liaison \<times> 'd \<times> exchange list" where
  "reconcileSessions h dm l sidecarID d =
     (let l' = reifySpecifications h sidecarID l
      in
      case Connect dm d of
        Some e \<Rightarrow>
          (Err (Errorf ''unable to connect to Mutagen daemon: %w'' [e]), l', d,
           [(Daemon_Connect, Failed e)])
      | None \<Rightarrow>
     (let projectSelection =
            LabelSelector
              (sessionSidecarLabelKey h @ '' == '' @ chopSidecarIdentifier h sidecarID)
      in
      case ForwardingList dm d projectSelection of
        Inl e \<Rightarrow>
          (Err (Errorf ''forwarding session listing failed: %w'' [e]), l', d,
           [(Daemon_Connect, Succeeded), (Forwarding_List projectSelection, Failed e)])
      | Inr forwardingStates \<Rightarrow>
     (case ForwardingListingValid dm forwardingStates of
        Some e \<Rightarrow>
          (Err (Errorf ''invalid forwarding session listing response received: %w'' [e]), l', d,
           [(Daemon_Connect, Succeeded),
            (Forwarding_List projectSelection, ForwardingStates forwardingStates)])
      | None \<Rightarrow>
     (case SynchronizationList dm d projectSelection of
        Inl e \<Rightarrow>
          (Err (Errorf ''synchronization session listing failed: %w'' [e]), l', d,
           [(Daemon_Connect, Succeeded),
            (Forwarding_List projectSelection, ForwardingStates forwardingStates),
            (Synchronization_List projectSelection, Failed e)])
      | Inr synchronizationStates \<Rightarrow>
     (case SynchronizationListingValid dm synchronizationStates of
        Some e \<Rightarrow>
          (Err (Errorf ''invalid synchronization session listing response received: %w'' [e]),
           l', d,
           [(Daemon_Connect, Succeeded),
            (Forwarding_List projectSelection, ForwardingStates forwardingStates),
            (Synchronization_List projectSelection,
             SynchronizationStates synchronizationStates)])
      | None \<Rightarrow>
     (case classifySessions (map_of (forwarding l')) forwardingStates [] Map.empty of
        (forwardingPruneList, forwardingNameToSession) \<Rightarrow>
     (case classifySessions (map_of (synchronization l')) synchronizationStates [] Map.empty of
        (synchronizationPruneList, synchronizationNameToSession) \<Rightarrow>
     (case identifyCreations (forwardingSessionCurrent h) forwardingNameToSession
             (forwarding l') forwardingPruneList [] of
        (forwardingPruneList', forwardingCreateSpecifications) \<Rightarrow>
     (case identifyCreations (synchronizationSessionCurrent h) synchronizationNameToSession
             (synchronization l') synchronizationPruneList [] of
        (synchronizationPruneList', synchronizationCreateSpecifications) \<Rightarrow>
     (case applyReconciliation dm projectSelection forwardingPruneList'
             synchronizationPruneList' forwardingCreateSpecifications
             synchronizationCreateSpecifications d of
        (r, d', t) \<Rightarrow>
          (r, l', d',
           [(Daemon_Connect, Succeeded),
            (Forwarding_List projectSelection, ForwardingStates forwardingStates),
            (Synchronization_List projectSelection,
             SynchronizationStates synchronizationStates)] @ t)))))))))))"

text \<open>
  The four operations by project: connect, build the selection, send the command for
  forwarding and then for synchronization.
\<close>

definition listSessions ::
  "helpers \<Rightarrow> 'd daemon \<Rightarrow> string \<Rightarrow> 'd \<Rightarrow> unit result \<times> 'd \<times> exchange list" where
  "listSessions h dm sidecarID d =
     (case Connect dm d of
        Some e \<Rightarrow>
          (Err (Errorf ''unable to connect to Mutagen daemon: %w'' [e]), d,
           [(Daemon_Connect, Failed e)])
      | None \<Rightarrow>
     (let projectSelection =
            LabelSelector
              (sessionSidecarLabelKey h @ '' == '' @ chopSidecarIdentifier h sidecarID)
      in
      case invoke dm (ListWithSelection Kind_Forwarding projectSelection False) d of
        (Some e, d1, t1) \<Rightarrow>
          (Err (Errorf ''forwarding listing failed: %w'' [e]), d1,
           (Daemon_Connect, Succeeded) # t1)
      | (None, d1, t1) \<Rightarrow>
     (case invoke dm (ListWithSelection Kind_Synchronization projectSelection False) d1 of
        (Some e, d2, t2) \<Rightarrow>
          (Err (Errorf ''synchronization listing failed: %w'' [e]), d2,
           (Daemon_Connect, Succeeded) # t1 @ t2)
      | (None, d2, t2) \<Rightarrow> (Ok (), d2, (Daemon_Connect, Succeeded) # t1 @ t2))))"

definition pauseSessions ::
  "helpers \<Rightarrow> 'd daemon \<Rightarrow> string \<Rightarrow> 'd \<Rightarrow> unit result \<times> 'd \<times> exchange list" where
  "pauseSessions h dm sidecarID d =
     (case Connect dm d of
        Some e \<Rightarrow>
          (Err (Errorf ''unable to connect to Mutagen daemon: %w'' [e]), d,
           [(Daemon_Connect, Failed e)])
      | None \<Rightarrow>
     (let projectSelection =
            LabelSelector
              (sessionSidecarLabelKey h @ '' == '' @ chopSidecarIdentifier h sidecarID)
      in
      case invoke dm (PauseWithSelection Kind_Forwarding projectSelection) d of
        (Some e, d1, t1) \<Rightarrow>
          (Err (Errorf ''forwarding pausing failed: %w'' [e]), d1,
           (Daemon_Connect, Succeeded) # t1)
      | (None, d1, t1) \<Rightarrow>
     (case invoke dm (PauseWithSelection Kind_Synchronization projectSelection) d1 of
        (Some e, d2, t2) \<Rightarrow>
          (Err (Errorf ''synchronization pausing failed: %w'' [e]), d2,
           (Daemon_Connect, Succeeded) # t1 @ t2)
      | (None, d2, t2) \<Rightarrow> (Ok (), d2, (Daemon_Connect, Succeeded) # t1 @ t2))))"

definition resumeSessions ::
  "helpers \<Rightarrow> 'd daemon \<Rightarrow> string \<Rightarrow> 'd \<Rightarrow> unit result \<times> 'd \<times> exchange list" where
  "resumeSessions h dm sidecarID d =
     (case Connect dm d of
        Some e \<Rightarrow>
          (Err (Errorf ''unable to connect to Mutagen daemon: %w'' [e]), d,
           [(Daemon_Connect, Failed e)])
      | None \<Rightarrow>
     (let projectSelection =
            LabelSelector
              (sessionSidecarLabelKey h @ '' == '' @ chopSidecarIdentifier h sidecarID)
      in
      case invoke dm (ResumeWithSelection Kind_Forwarding projectSelection) d of
        (Some e, d1, t1) \<Rightarrow>
          (Err (Errorf ''forwarding resumption failed: %w'' [e]), d1,
           (Daemon_Connect, Succeeded) # t1)
      | (None, d1, t1) \<Rightarrow>
     (case invoke dm (ResumeWithSelection Kind_Synchronization projectSelection) d1 of
        (Some e, d2, t2) \<Rightarrow>
          (Err (Errorf ''synchronization resumption failed: %w'' [e]), d2,
           (Daemon_Connect, Succeeded) # t1 @ t2)
      | (None, d2, t2) \<Rightarrow> (Ok (), d2, (Daemon_Connect, Succeeded) # t1 @ t2))))"

definition terminateSessions ::
  "helpers \<Rightarrow> 'd daemon \<Rightarrow> string \<Rightarrow> 'd \<Rightarrow> unit result \<times> 'd \<times> exchange list" where
  "terminateSessions h dm sidecarID d =
     (case Connect dm d of
        Some e \<Rightarrow>
          (Err (Errorf ''unable to connect to Mutagen daemon: %w'' [e]), d,
           [(Daemon_Connect, Failed e)])
      | None \<Rightarrow>
     (let projectSelection =
            LabelSelector
              (sessionSidecarLabelKey h @ '' == '' @ chopSidecarIdentifier h sidecarID)
      in
      case invoke dm (TerminateWithSelection Kind_Forwarding projectSelection) d of
        (Some e, d1, t1) \<Rightarrow>
          (Err (Errorf ''forwarding termination failed: %w'' [e]), d1,
           (Daemon_Connect, Succeeded) # t1)
      | (None, d1, t1) \<Rightarrow>
     (case invoke dm (TerminateWithSelection Kind_Synchronization projectSelection) d1 of
        (Some e, d2, t2) \<Rightarrow>
          (Err (Errorf ''synchronization termination failed: %w'' [e]), d2,
           (Daemon_Connect, Succeeded) # t1 @ t2)
      | (None, d2, t2) \<Rightarrow> (Ok (), d2, (Daemon_Connect, Succeeded) # t1 @ t2))))"

section \<open>Building the specifications\<close>

text \<open>
  The \<^verbatim>\<open>x-mutagen\<close> section after decoding (the package's \<^verbatim>\<open>configuration\<close> type): for
  each kind a map from session name to the session's two URLs and three configurations.
  The conversion of a decoded configuration to the library's type (its \<^verbatim>\<open>Configuration()\<close>
  method) is part of decoding here.
\<close>

record forwardingSessionConfiguration =
  fwdSource :: string
  fwdDestination :: string
  fwdConfiguration :: configuration
  fwdConfigurationSource :: configuration
  fwdConfigurationDestination :: configuration

record synchronizationSessionConfiguration =
  syncAlpha :: string
  syncBeta :: string
  syncConfiguration :: configuration
  syncConfigurationAlpha :: configuration
  syncConfigurationBeta :: configuration

record sessions =
  Forwarding :: "(string \<times> forwardingSessionConfiguration) list"
  Synchronization :: "(string \<times> synchronizationSessionConfiguration) list"

text \<open>
  The Compose project, as far as \<^verbatim>\<open>processProject\<close> reads and writes it. Of the
  project's networks and volumes only the declared names matter; an extension section is
  kept undecoded; a service's \<^verbatim>\<open>DependsOn\<close> map may be nil.
\<close>

record serviceVolumeConfig =
  VolumeType :: string
  VolumeSource :: string
  VolumeTarget :: string

record serviceConfig =
  ServiceName :: string
  Image :: string
  ServiceLabels :: "(string \<times> string) list"
  Networks :: "string list"
  Volumes :: "serviceVolumeConfig list"
  DependsOn :: "(string \<times> string) list option"

record project =
  WorkingDir :: string
  Services :: "serviceConfig list"
  ProjectNetworks :: "string set"
  ProjectVolumes :: "string set"
  Extensions :: "string \<rightharpoonup> string"

text \<open>
  What \<^verbatim>\<open>processProject\<close> uses and this file's sources do not hold: the package's
  constants and URL helpers, the Docker daemon's answer to \<^verbatim>\<open>Info\<close> (an error or the
  daemon's OS type), the decoder, and the functions of the Mutagen, Compose and Go
  libraries. They are parameters.
\<close>

record environment =
  sidecarServiceName :: string
  sidecarImage :: string
  sidecarRoleLabelKey :: string
  sidecarRoleLabelValue :: string
  sidecarVersionLabelKey :: string
  Version :: string
  ServiceConditionStarted :: string
  Info :: "string + string"
  NewDecoder :: "string option"
  Decode :: "string \<Rightarrow> string + sessions"
  EnsureNameValid :: "string \<Rightarrow> string option"
  ForwardingEnsureValid :: "configuration \<Rightarrow> bool \<Rightarrow> string option"
  SynchronizationEnsureValid :: "configuration \<Rightarrow> bool \<Rightarrow> string option"
  isNetworkURL :: "string \<Rightarrow> bool"
  isVolumeURL :: "string \<Rightarrow> bool"
  urlParse :: "string \<Rightarrow> kind \<Rightarrow> bool \<Rightarrow> string + url"
  forwardingurlParse :: "string \<Rightarrow> string + string \<times> string"
  isTCPForwardingProtocol :: "string \<Rightarrow> bool"
  parseNetworkURL :: "string \<Rightarrow> string + url \<times> string"
  parseVolumeURL :: "string \<Rightarrow> string \<Rightarrow> string + url \<times> string"
  filepathIsAbs :: "string \<Rightarrow> bool"
  filepathJoin :: "string \<Rightarrow> string \<Rightarrow> string"
  filepathAbs :: "string \<Rightarrow> string + string"
  mountPathForVolumeInMutagenContainer :: "string \<Rightarrow> string \<Rightarrow> string"

text \<open>
  Modelled from the spec: \<^verbatim>\<open>forwarding.MergeConfigurations\<close> and
  \<^verbatim>\<open>synchronization.MergeConfigurations\<close> are functions of the Mutagen library, which
  is not among the sources. The specification (section 4.2) has the merge last-writer-wins
  for each field: the higher layer's value where it is set, the lower layer's otherwise.
\<close>

definition MergeConfigurations :: "configuration \<Rightarrow> configuration \<Rightarrow> configuration" where
  "MergeConfigurations lower higher = lower ++ higher"

text \<open>
  The reserved \<^verbatim>\<open>defaults\<close> entry of the forwarding sessions: it must not name URLs, its
  three configurations must be valid, and it leaves the session map. Without the entry
  the three default configurations are empty.
\<close>

definition forwardingDefaults ::
  "environment \<Rightarrow> (string \<times> forwardingSessionConfiguration) list \<Rightarrow>
   ((configuration \<times> configuration \<times> configuration) \<times>
    (string \<times> forwardingSessionConfiguration) list) result" where
  "forwardingDefaults env forwardingSessions =
     (case map_of forwardingSessions ''defaults'' of
        None \<Rightarrow> Ok ((Map.empty, Map.empty, Map.empty), forwardingSessions)
      | Some defaults \<Rightarrow>
          if fwdSource defaults \<noteq> [] then
            Err (Errorf ''source URL not allowed in default forwarding configuration'' [])
          else if fwdDestination defaults \<noteq> [] then
            Err (Errorf ''destination URL not allowed in default forwarding configuration'' [])
          else
          (case ForwardingEnsureValid env (fwdConfiguration defaults) False of
             Some e \<Rightarrow> Err (Errorf ''invalid default forwarding configuration: %w'' [e])
           | None \<Rightarrow>
          (case ForwardingEnsureValid env (fwdConfigurationSource defaults) True of
             Some e \<Rightarrow>
               Err (Errorf ''invalid default forwarding source configuration: %w'' [e])
           | None \<Rightarrow>
          (case ForwardingEnsureValid env (fwdConfigurationDestination defaults) True of
             Some e \<Rightarrow>
               Err (Errorf ''invalid default forwarding destination configuration: %w'' [e])
           | None \<Rightarrow>
               Ok ((fwdConfiguration defaults, fwdConfigurationSource defaults,
                    fwdConfigurationDestination defaults),
                   AList.delete ''defaults'' forwardingSessions)))))"

definition synchronizationDefaults ::
  "environment \<Rightarrow> (string \<times> synchronizationSessionConfiguration) list \<Rightarrow>
   ((configuration \<times> configuration \<times> configuration) \<times>
    (string \<times> synchronizationSessionConfiguration) list) result" where
  "synchronizationDefaults env synchronizationSessions =
     (case map_of synchronizationSessions ''defaults'' of
        None \<Rightarrow> Ok ((Map.empty, Map.empty, Map.empty), synchronizationSessions)
      | Some defaults \<Rightarrow>
          if syncAlpha defaults \<noteq> [] then
            Err (Errorf ''alpha URL not allowed in default synchronization configuration'' [])
          else if syncBeta defaults \<noteq> [] then
            Err (Errorf ''beta URL not allowed in default synchronization configuration'' [])
          else
          (case SynchronizationEnsureValid env (syncConfiguration defaults) False of
             Some e \<Rightarrow> Err (Errorf ''invalid default synchronization configuration: %w'' [e])
           | None \<Rightarrow>
          (case SynchronizationEnsureValid env (syncConfigurationAlpha defaults) True of
             Some e \<Rightarrow>
               Err (Errorf ''invalid default synchronization alpha configuration: %w'' [e])
           | None \<Rightarrow>
          (case SynchronizationEnsureValid env (syncConfigurationBeta defaults) True of
             Some e \<Rightarrow>
               Err (Errorf ''invalid default synchronization beta configuration: %w'' [e])
           | None \<Rightarrow>
               Ok ((syncConfiguration defaults, syncConfigurationAlpha defaults,
                    syncConfigurationBeta defaults),
                   AList.delete ''defaults'' synchronizationSessions)))))"

text \<open>
  The body of the loop over the forwarding sessions: the specification of one session and
  the network it depends on, or the first error. A source that parsed as a local URL and
  does not parse again as a forwarding endpoint makes the source panic.
\<close>

definition processForwardingSession ::
  "environment \<Rightarrow> configuration \<times> configuration \<times> configuration \<Rightarrow> string \<Rightarrow>
   forwardingSessionConfiguration \<Rightarrow> (forwardingSpecification \<times> string) result" where
  "processForwardingSession env defaults name session =
     (case defaults of
        (defaultConfigurationForwarding, defaultConfigurationSource,
         defaultConfigurationDestination) \<Rightarrow>
     (case EnsureNameValid env name of
        Some e \<Rightarrow> Err (Errorf ''invalid forwarding session name (%s): %w'' [name, e])
      | None \<Rightarrow>
     if isNetworkURL env (fwdSource session) then
       Err (Errorf ''network URL (%s) not allowed as forwarding source'' [fwdSource session])
     else
     (case urlParse env (fwdSource session) Kind_Forwarding True of
        Inl e \<Rightarrow>
          Err (Errorf ''unable to parse forwarding source URL (%s): %w''
                 [fwdSource session, e])
      | Inr sourceURL \<Rightarrow>
     if Protocol sourceURL \<noteq> Protocol_Local then
       Err (Errorf ''only local URLs allowed as forwarding sources'' [])
     else
     (case forwardingurlParse env (Path sourceURL) of
        Inl e \<Rightarrow> Panic ''forwarding URL failed to reparse''
      | Inr (protocol, address) \<Rightarrow>
     if \<not> isTCPForwardingProtocol env protocol then
       Err (Errorf ''non-TCP-based forwarding endpoint (%s) unsupported'' [Path sourceURL])
     else
     if \<not> isNetworkURL env (fwdDestination session) then
       Err (Errorf ''forwarding destination (%s) should be a network URL''
              [fwdDestination session])
     else
     (case parseNetworkURL env (fwdDestination session) of
        Inl e \<Rightarrow>
          Err (Errorf ''unable to parse forwarding destination URL (%s): %w''
                 [fwdDestination session, e])
      | Inr (destinationURL, network) \<Rightarrow>
     (case ForwardingEnsureValid env (fwdConfiguration session) False of
        Some e \<Rightarrow>
          Err (Errorf ''invalid forwarding session configuration for %s: %w'' [name, e])
      | None \<Rightarrow>
     (case ForwardingEnsureValid env (fwdConfigurationSource session) True of
        Some e \<Rightarrow>
          Err (Errorf ''invalid forwarding session source configuration for %s: %w''
                 [name, e])
      | None \<Rightarrow>
     (case ForwardingEnsureValid env (fwdConfigurationDestination session) True of
        Some e \<Rightarrow>
          Err (Errorf ''invalid forwarding session destination configuration for %s: %w''
                 [name, e])
      | None \<Rightarrow>
          Ok (\<lparr>SpecName = name, Labels = [],
               Configuration =
                 MergeConfigurations defaultConfigurationForwarding
                   (fwdConfiguration session),
               Source = sourceURL, Destination = destinationURL,
               ConfigurationSource =
                 MergeConfigurations defaultConfigurationSource
                   (fwdConfigurationSource session),
               ConfigurationDestination =
                 MergeConfigurations defaultConfigurationDestination
                   (fwdConfigurationDestination session)\<rparr>,
              network)))))))))"

text \<open>The loop: every session in turn, each specification stored under its name.\<close>

fun forwardingLoop ::
  "environment \<Rightarrow> configuration \<times> configuration \<times> configuration \<Rightarrow>
   (string \<times> forwardingSessionConfiguration) list \<Rightarrow>
   (string \<times> forwardingSpecification) list \<Rightarrow> string list \<Rightarrow>
   ((string \<times> forwardingSpecification) list \<times> string list) result" where
  "forwardingLoop env defaults [] forwardingSpecifications networkDependencies =
     Ok (forwardingSpecifications, networkDependencies)"
| "forwardingLoop env defaults ((name, session) # rest) forwardingSpecifications
     networkDependencies =
     (case processForwardingSession env defaults name session of
        Err e \<Rightarrow> Err e
      | Panic s \<Rightarrow> Panic s
      | Ok (c, network) \<Rightarrow>
          forwardingLoop env defaults rest (AList.update name c forwardingSpecifications)
            (List.insert network networkDependencies))"

text \<open>
  One endpoint of a synchronization session: a volume URL is parsed as such; any other
  URL must be a local one, and a relative path is resolved against the project's
  working directory. The two blocks of the source differ in their messages and in the
  flag given to the URL parser.
\<close>

definition parseAlpha ::
  "environment \<Rightarrow> project \<Rightarrow> string \<Rightarrow> string \<Rightarrow> bool \<Rightarrow> (url \<times> string list) result" where
  "parseAlpha env p osType alpha alphaIsVolume =
     (if alphaIsVolume then
        (case parseVolumeURL env alpha osType of
           Inl e \<Rightarrow>
             Err (Errorf ''unable to parse synchronization alpha URL (%s): %w'' [alpha, e])
         | Inr (a, volume) \<Rightarrow> Ok (a, [volume]))
      else
        (case urlParse env alpha Kind_Synchronization True of
           Inl e \<Rightarrow>
             Err (Errorf ''unable to parse synchronization alpha URL (%s): %w'' [alpha, e])
         | Inr alphaURL \<Rightarrow>
             if Protocol alphaURL \<noteq> Protocol_Local then
               Err (Errorf ''only local and volume URLs allowed as synchronization URLs'' [])
             else if \<not> filepathIsAbs env alpha then
               (case filepathAbs env (filepathJoin env (WorkingDir p) alpha) of
                  Inl e \<Rightarrow>
                    Err (Errorf ''unable to resolve relative alpha URL (%s): %w'' [alpha, e])
                | Inr path \<Rightarrow> Ok (alphaURL\<lparr>Path := path\<rparr>, []))
             else Ok (alphaURL, [])))"

definition parseBeta ::
  "environment \<Rightarrow> project \<Rightarrow> string \<Rightarrow> string \<Rightarrow> bool \<Rightarrow> (url \<times> string list) result" where
  "parseBeta env p osType beta betaIsVolume =
     (if betaIsVolume then
        (case parseVolumeURL env beta osType of
           Inl e \<Rightarrow>
             Err (Errorf ''unable to parse synchronization beta URL (%s): %w'' [beta, e])
         | Inr (b, volume) \<Rightarrow> Ok (b, [volume]))
      else
        (case urlParse env beta Kind_Synchronization False of
           Inl e \<Rightarrow>
             Err (Errorf ''unable to parse synchronization beta URL (%s): %w'' [beta, e])
         | Inr betaURL \<Rightarrow>
             if Protocol betaURL \<noteq> Protocol_Local then
               Err (Errorf ''only local and volume URLs allowed as synchronization URLs'' [])
             else if \<not> filepathIsAbs env beta then
               (case filepathAbs env (filepathJoin env (WorkingDir p) beta) of
                  Inl e \<Rightarrow>
                    Err (Errorf ''unable to resolve relative beta URL (%s): %w'' [beta, e])
                | Inr path \<Rightarrow> Ok (betaURL\<lparr>Path := path\<rparr>, []))
             else Ok (betaURL, [])))"

text \<open>
  The body of the loop over the synchronization sessions: the specification of one
  session and the volumes it depends on, or the first error.
\<close>

definition processSynchronizationSession ::
  "environment \<Rightarrow> project \<Rightarrow> string \<Rightarrow> configuration \<times> configuration \<times> configuration \<Rightarrow>
   string \<Rightarrow> synchronizationSessionConfiguration \<Rightarrow>
   (synchronizationSpecification \<times> string list) result" where
  "processSynchronizationSession env p osType defaults name session =
     (case defaults of
        (defaultConfigurationSynchronization, defaultConfigurationAlpha,
         defaultConfigurationBeta) \<Rightarrow>
     (case EnsureNameValid env name of
        Some e \<Rightarrow> Err (Errorf ''invalid synchronization session name (%s): %v'' [name, e])
      | None \<Rightarrow>
     (let alphaIsVolume = isVolumeURL env (syncAlpha session);
          betaIsVolume = isVolumeURL env (syncBeta session)
      in
      if \<not> (alphaIsVolume \<or> betaIsVolume) then
        Err (Errorf
          ''neither alpha nor beta references a volume in synchronization session (%s)''
          [name])
      else if alphaIsVolume \<and> betaIsVolume then
        Err (Errorf ''both alpha and beta reference volumes in synchronization session (%s)''
          [name])
      else
     (case parseAlpha env p osType (syncAlpha session) alphaIsVolume of
        Err e \<Rightarrow> Err e
      | Panic s \<Rightarrow> Panic s
      | Ok (alphaURL, alphaVolumes) \<Rightarrow>
     (case parseBeta env p osType (syncBeta session) betaIsVolume of
        Err e \<Rightarrow> Err e
      | Panic s \<Rightarrow> Panic s
      | Ok (betaURL, betaVolumes) \<Rightarrow>
     (case SynchronizationEnsureValid env (syncConfiguration session) False of
        Some e \<Rightarrow>
          Err (Errorf ''invalid synchronization session configuration for %s: %v'' [name, e])
      | None \<Rightarrow>
     (case SynchronizationEnsureValid env (syncConfigurationAlpha session) True of
        Some e \<Rightarrow>
          Err (Errorf ''invalid synchronization session alpha configuration for %s: %v''
                 [name, e])
      | None \<Rightarrow>
     (case SynchronizationEnsureValid env (syncConfigurationBeta session) True of
        Some e \<Rightarrow>
          Err (Errorf ''invalid synchronization session beta configuration for %s: %v''
                 [name, e])
      | None \<Rightarrow>
          Ok (\<lparr>SpecName = name, Labels = [],
               Configuration =
                 MergeConfigurations defaultConfigurationSynchronization
                   (syncConfiguration session),
               Alpha = alphaURL, Beta = betaURL,
               ConfigurationAlpha =
                 MergeConfigurations defaultConfigurationAlpha
                   (syncConfigurationAlpha session),
               ConfigurationBeta =
                 MergeConfigurations defaultConfigurationBeta
                   (syncConfigurationBeta session)\<rparr>,
              alphaVolumes @ betaVolumes)))))))))"

fun synchronizationLoop ::
  "environment \<Rightarrow> project \<Rightarrow> string \<Rightarrow> configuration \<times> configuration \<times> configuration \<Rightarrow>
   (string \<times> synchronizationSessionConfiguration) list \<Rightarrow>
   (string \<times> synchronizationSpecification) list \<Rightarrow> string list \<Rightarrow>
   ((string \<times> synchronizationSpecification) list \<times> string list) result" where
  "synchronizationLoop env p osType defaults [] synchronizationSpecifications
     volumeDependencies = Ok (synchronizationSpecifications, volumeDependencies)"
| "synchronizationLoop env p osType defaults ((name, session) # rest)
     synchronizationSpecifications volumeDependencies =
     (case processSynchronizationSession env p osType defaults name session of
        Err e \<Rightarrow> Err e
      | Panic s \<Rightarrow> Panic s
      | Ok (c, volumes) \<Rightarrow>
          synchronizationLoop env p osType defaults rest
            (AList.update name c synchronizationSpecifications)
            (fold List.insert volumes volumeDependencies))"

text \<open>
  Decoding of the \<^verbatim>\<open>x-mutagen\<close> section; a project without the section has an empty
  configuration.
\<close>

definition decodeSessions :: "environment \<Rightarrow> project \<Rightarrow> sessions result" where
  "decodeSessions env p =
     (case Extensions p ''x-mutagen'' of
        None \<Rightarrow> Ok \<lparr>Forwarding = [], Synchronization = []\<rparr>
      | Some xMutagen \<Rightarrow>
          (case NewDecoder env of
             Some e \<Rightarrow> Err (Errorf ''unable to create configuration decoder: %w'' [e])
           | None \<Rightarrow>
               (case Decode env xMutagen of
                  Inl e \<Rightarrow> Err (Errorf ''unable to decode x-mutagen section: %w'' [e])
                | Inr decoded \<Rightarrow> Ok decoded)))"

text \<open>Every network and every volume a session refers to must be declared.\<close>

definition validateDependencies ::
  "project \<Rightarrow> string list \<Rightarrow> string list \<Rightarrow> unit result" where
  "validateDependencies p networkDependencies volumeDependencies =
     (case List.find (\<lambda>network. network \<notin> ProjectNetworks p) networkDependencies of
        Some network \<Rightarrow>
          Err (Errorf ''undefined network (%s) referenced by forwarding session'' [network])
      | None \<Rightarrow>
          (case List.find (\<lambda>volume. volume \<notin> ProjectVolumes p) volumeDependencies of
             Some volume \<Rightarrow>
               Err (Errorf ''undefined volume (%s) referenced by synchronization session''
                      [volume])
           | None \<Rightarrow> Ok ()))"

text \<open>
  The part of \<^verbatim>\<open>processProject\<close> between the metadata query and the first change of
  the project: the two specification maps and the two dependency sets, or the first
  error.
\<close>

definition buildSpecifications ::
  "environment \<Rightarrow> project \<Rightarrow> string \<Rightarrow>
   ((string \<times> forwardingSpecification) list \<times> string list \<times>
    (string \<times> synchronizationSpecification) list \<times> string list) result" where
  "buildSpecifications env p osType =
     (case decodeSessions env p of
        Err e \<Rightarrow> Err e
      | Panic s \<Rightarrow> Panic s
      | Ok decoded \<Rightarrow>
     (case forwardingDefaults env (Forwarding decoded) of
        Err e \<Rightarrow> Err e
      | Panic s \<Rightarrow> Panic s
      | Ok (defaultsForwarding, forwardingSessions) \<Rightarrow>
     (case synchronizationDefaults env (Synchronization decoded) of
        Err e \<Rightarrow> Err e
      | Panic s \<Rightarrow> Panic s
      | Ok (defaultsSynchronization, synchronizationSessions) \<Rightarrow>
     (case forwardingLoop env defaultsForwarding forwardingSessions [] [] of
        Err e \<Rightarrow> Err e
      | Panic s \<Rightarrow> Panic s
      | Ok (forwardingSpecifications, networkDependencies) \<Rightarrow>
     (case synchronizationLoop env p osType defaultsSynchronization synchronizationSessions
             [] [] of
        Err e \<Rightarrow> Err e
      | Panic s \<Rightarrow> Panic s
      | Ok (synchronizationSpecifications, volumeDependencies) \<Rightarrow>
     (case validateDependencies p networkDependencies volumeDependencies of
        Err e \<Rightarrow> Err e
      | Panic s \<Rightarrow> Panic s
      | Ok u \<Rightarrow>
          Ok (forwardingSpecifications, networkDependencies,
              synchronizationSpecifications, volumeDependencies)))))))"

text \<open>
  A service that mounts one of the volumes Mutagen targets gets a dependency on the
  sidecar service.
\<close>

definition addSidecarDependency ::
  "environment \<Rightarrow> string list \<Rightarrow> serviceConfig \<Rightarrow> serviceConfig" where
  "addSidecarDependency env volumeDependencies service =
     (if \<exists>volume \<in> set (Volumes service).
           VolumeType volume = ''volume'' \<and> VolumeSource volume \<in> set volumeDependencies
      then
        service\<lparr>DependsOn :=
          Some (AList.update (sidecarServiceName env) (ServiceConditionStarted env)
                  (case DependsOn service of None \<Rightarrow> [] | Some dependencies \<Rightarrow> dependencies))\<rparr>
      else service)"

text \<open>The sidecar service definition.\<close>

definition sidecarService ::
  "environment \<Rightarrow> string \<Rightarrow> string list \<Rightarrow> string list \<Rightarrow> serviceConfig" where
  "sidecarService env osType networkDependencies volumeDependencies =
     \<lparr>ServiceName = sidecarServiceName env,
      Image = sidecarImage env,
      ServiceLabels =
        [(sidecarRoleLabelKey env, sidecarRoleLabelValue env),
         (sidecarVersionLabelKey env, Version env)],
      Networks = networkDependencies,
      Volumes =
        map (\<lambda>volume.
               \<lparr>VolumeType = ''volume'', VolumeSource = volume,
                VolumeTarget = mountPathForVolumeInMutagenContainer env osType volume\<rparr>)
          volumeDependencies,
      DependsOn = None\<rparr>"

text \<open>
  \<^verbatim>\<open>processProject\<close>. The result is what it returns, the project and the liaison after it
  and the trace of its calls. A nil project is \<open>None\<close>.
\<close>

definition processProject ::
  "environment \<Rightarrow> liaison \<Rightarrow> project option \<Rightarrow>
   unit result \<times> project option \<times> liaison \<times> exchange list" where
  "processProject env l project =
     (case project of
        None \<Rightarrow> (Ok (), None, l, [])
      | Some p \<Rightarrow>
          if \<exists>service \<in> set (Services p). ServiceName service = sidecarServiceName env then
            (Err (Errorf ''Mutagen sidecar service name (%s) conflicts with existing service''
                    [sidecarServiceName env]),
             Some p, l, [])
          else
          (case Info env of
             Inl e \<Rightarrow>
               (Err (Errorf ''unable to query daemon metadata: %w'' [e]), Some p, l,
                [(Docker_Info, Failed e)])
           | Inr osType \<Rightarrow>
               (case buildSpecifications env p osType of
                  Err e \<Rightarrow> (Err e, Some p, l, [(Docker_Info, Metadata osType)])
                | Panic s \<Rightarrow> (Panic s, Some p, l, [(Docker_Info, Metadata osType)])
                | Ok (forwardingSpecifications, networkDependencies,
                      synchronizationSpecifications, volumeDependencies) \<Rightarrow>
                    (Ok (),
                     Some (p\<lparr>Services :=
                              map (addSidecarDependency env volumeDependencies) (Services p) @
                              [sidecarService env osType networkDependencies
                                 volumeDependencies]\<rparr>),
                     l\<lparr>forwarding := forwardingSpecifications,
                       synchronization := synchronizationSpecifications\<rparr>,
                     [(Docker_Info, Metadata osType)]))))"

section \<open>Vocabulary of the statements\<close>

text \<open>
  The positions of a listing that classification prunes, in the words of the
  specification: the session's name has no specification (an orphan), or an earlier
  session of the listing has the same name (a duplicate).
\<close>

definition prunedIndices :: "(string \<rightharpoonup> 'spec) \<Rightarrow> ('a session_scheme) list \<Rightarrow> nat list" where
  "prunedIndices desired states =
     filter (\<lambda>i. desired (Name (states ! i)) = None \<or>
                  Name (states ! i) \<in> Name ` set (take i states))
       [0..<length states]"

text \<open>
  The identifiers the daemon answered to the synchronization creations of a trace, in
  order.
\<close>

definition createdSession :: "exchange \<Rightarrow> string list" where
  "createdSession x =
     (case x of (Synchronization_Create s, Created i) \<Rightarrow> [i] | _ \<Rightarrow> [])"

definition createdSynchronizationSessions :: "exchange list \<Rightarrow> string list" where
  "createdSynchronizationSessions t = concat (map createdSession t)"

text \<open>
  The calls of the apply phase in the order the specification gives them: the batched
  terminations (one per kind, none for an empty list), the two resumptions, one creation
  per specification, and a flush when a synchronization session was created.
\<close>

definition applySequence ::
  "selection \<Rightarrow> string list \<Rightarrow> string list \<Rightarrow> forwardingSpecification list \<Rightarrow>
   synchronizationSpecification list \<Rightarrow> string list \<Rightarrow> call list" where
  "applySequence projectSelection forwardingPruneList synchronizationPruneList
     forwardingCreateSpecifications synchronizationCreateSpecifications created =
     (if forwardingPruneList = [] then []
      else [TerminateWithSelection Kind_Forwarding (Specifications forwardingPruneList)]) @
     (if synchronizationPruneList = [] then []
      else [TerminateWithSelection Kind_Synchronization
              (Specifications synchronizationPruneList)]) @
     [ResumeWithSelection Kind_Forwarding projectSelection,
      ResumeWithSelection Kind_Synchronization projectSelection] @
     map Forwarding_Create forwardingCreateSpecifications @
     map Synchronization_Create synchronizationCreateSpecifications @
     (if created = [] then [] else [FlushWithSelection (Specifications created) False])"

text \<open>
  An exchange failed when the daemon answered the call with an error. A listing was
  rejected when the daemon answered it with states that do not pass validation.
\<close>

definition failed :: "exchange \<Rightarrow> bool" where
  "failed x = (case snd x of Failed e \<Rightarrow> True | _ \<Rightarrow> False)"

definition rejectedListing :: "'d daemon \<Rightarrow> exchange \<Rightarrow> bool" where
  "rejectedListing dm x =
     (case snd x of
        ForwardingStates states \<Rightarrow> ForwardingListingValid dm states \<noteq> None
      | SynchronizationStates states \<Rightarrow> SynchronizationListingValid dm states \<noteq> None
      | _ \<Rightarrow> False)"

text \<open>
  A trace stops at a failure: when the call ended in an error, the last exchange failed
  and no earlier one did; when it ended without error, no exchange failed.
\<close>

definition stopsAtFailure :: "bool \<Rightarrow> exchange list \<Rightarrow> bool" where
  "stopsAtFailure err t =
     (if err then t \<noteq> [] \<and> failed (last t) \<and> (\<forall>x \<in> set (butlast t). \<not> failed x)
      else (\<forall>x \<in> set t. \<not> failed x))"

text \<open>
  The ownership label of a sidecar, and the label-equality expression that selects the
  sessions carrying a label.
\<close>

definition ownershipLabel :: "helpers \<Rightarrow> string \<Rightarrow> string \<times> string" where
  "ownershipLabel h sidecarID = (sessionSidecarLabelKey h, chopSidecarIdentifier h sidecarID)"

definition labelEquality :: "string \<times> string \<Rightarrow> selection" where
  "labelEquality kv = LabelSelector (fst kv @ '' == '' @ snd kv)"

text \<open>
  A call returns when it ends with a value or an error, not in a panic. The two URL
  parsers agree when every source the URL parser accepts as a local forwarding URL has a
  path that the forwarding endpoint parser accepts.
\<close>

definition returns :: "'a result \<Rightarrow> bool" where
  "returns r = (case r of Panic s \<Rightarrow> False | _ \<Rightarrow> True)"

definition parsersAgree :: "environment \<Rightarrow> bool" where
  "parsersAgree env =
     (\<forall>raw u. urlParse env raw Kind_Forwarding True = Inr u \<and> Protocol u = Protocol_Local \<longrightarrow>
        (\<exists>pa. forwardingurlParse env (Path u) = Inr pa))"

text \<open>
  A forwarding source classifies as local and TCP-based when it is no network URL, parses
  as a URL of the local protocol, and its path parses as a forwarding endpoint of a TCP
  protocol. The sessions of a decoded section are its entries other than \<^verbatim>\<open>defaults\<close>.
\<close>

definition sourceIsLocalTCP :: "environment \<Rightarrow> string \<Rightarrow> bool" where
  "sourceIsLocalTCP env source =
     (\<not> isNetworkURL env source \<and>
      (case urlParse env source Kind_Forwarding True of
         Inl e \<Rightarrow> False
       | Inr sourceURL \<Rightarrow>
           Protocol sourceURL = Protocol_Local \<and>
           (case forwardingurlParse env (Path sourceURL) of
              Inl e \<Rightarrow> False
            | Inr (protocol, address) \<Rightarrow> isTCPForwardingProtocol env protocol)))"

definition forwardingSessionsOf :: "sessions \<Rightarrow> (string \<times> forwardingSessionConfiguration) list" where
  "forwardingSessionsOf decoded = AList.delete ''defaults'' (Forwarding decoded)"

definition synchronizationSessionsOf ::
  "sessions \<Rightarrow> (string \<times> synchronizationSessionConfiguration) list" where
  "synchronizationSessionsOf decoded = AList.delete ''defaults'' (Synchronization decoded)"

text \<open>
  Layering of configurations in the words of the specification: in \<open>layered\<close> a field of
  the higher layer wins where it is set; \<open>threeTier\<close> layers a role default over a
  global default and an override over both; the default layer of a slot is that slot of
  the \<^verbatim>\<open>defaults\<close> entry, and empty without one.
\<close>

definition layered :: "configuration \<Rightarrow> configuration \<Rightarrow> configuration" where
  "layered lower higher =
     (\<lambda>field. case higher field of Some v \<Rightarrow> Some v | None \<Rightarrow> lower field)"

definition threeTier :: "configuration \<Rightarrow> configuration \<Rightarrow> configuration \<Rightarrow> configuration" where
  "threeTier global roleDefault override = layered (layered global roleDefault) override"

definition defaultsLayer :: "('a \<Rightarrow> configuration) \<Rightarrow> (string \<times> 'a) list \<Rightarrow> configuration" where
  "defaultsLayer slot entries =
     (case map_of entries ''defaults'' of None \<Rightarrow> Map.empty | Some defaults \<Rightarrow> slot defaults)"

section \<open>Example inputs\<close>

text \<open>
  A daemon that accepts every call, holding one forwarding session \<open>old\<close>, and a
  daemon that differs from it in refusing every forwarding creation; helpers that
  truncate the sidecar identifier to four characters; a liaison with one forwarding and
  one synchronization specification.
\<close>

definition exampleHelpers :: helpers where
  "exampleHelpers =
     \<lparr>sessionSidecarLabelKey = ''sidecar'',
      chopSidecarIdentifier = take 4,
      reifySidecarURLIfNecessary = (\<lambda>u dockerHost sidecarID. u),
      DaemonHost = ''unix:///var/run/docker.sock'',
      forwardingSessionCurrent =
        (\<lambda>s c. SessionSource s = Source c \<and> SessionDestination s = Destination c),
      synchronizationSessionCurrent =
        (\<lambda>s c. SessionAlpha s = Alpha c \<and> SessionBeta s = Beta c)\<rparr>"

definition exampleURL :: "string \<Rightarrow> url" where
  "exampleURL p = \<lparr>Protocol = Protocol_Local, Host = [], Path = p\<rparr>"

definition exampleForwardingSession :: "string \<Rightarrow> string \<Rightarrow> forwardingSession" where
  "exampleForwardingSession i n =
     \<lparr>Identifier = i, Name = n, SessionSource = exampleURL ''tcp:localhost:8080'',
      SessionDestination = exampleURL ''tcp:web:80''\<rparr>"

definition exampleSynchronization :: synchronizationSpecification where
  "exampleSynchronization =
     \<lparr>SpecName = ''data'', Labels = [], Configuration = Map.empty,
      Alpha = exampleURL ''/app'', Beta = exampleURL ''/volumes/cache'',
      ConfigurationAlpha = Map.empty, ConfigurationBeta = Map.empty\<rparr>"

definition exampleForwarding :: forwardingSpecification where
  "exampleForwarding =
     \<lparr>SpecName = ''web'', Labels = [], Configuration = Map.empty,
      Source = exampleURL ''tcp:localhost:9000'', Destination = exampleURL ''tcp:web:80'',
      ConfigurationSource = Map.empty, ConfigurationDestination = Map.empty\<rparr>"

definition exampleDaemon :: "nat daemon" where
  "exampleDaemon =
     \<lparr>Connect = (\<lambda>d. None),
      ForwardingList = (\<lambda>d s. Inr [exampleForwardingSession ''f1'' ''old'']),
      ForwardingListingValid = (\<lambda>states. None),
      SynchronizationList = (\<lambda>d s. Inr []),
      SynchronizationListingValid = (\<lambda>states. None),
      Command = (\<lambda>d c. (None, Suc d)),
      ForwardingCreate = (\<lambda>d c. (Inr (''fwd_'' @ SpecName c), Suc d)),
      SynchronizationCreate = (\<lambda>d c. (Inr (''sync_'' @ SpecName c), Suc d))\<rparr>"


definition exampleLiaison :: liaison where
  "exampleLiaison =
     \<lparr>forwarding = [(''web'', exampleForwarding)],
      synchronization = [(''data'', exampleSynchronization)]\<rparr>"

text \<open>
  A project with one service \<open>web\<close> that mounts the volume \<open>cache\<close>, one forwarding
  session \<open>web\<close> to the network \<open>backend\<close>, forwarding defaults and one synchronization
  session \<open>data\<close> between \<open>./app\<close> and the volume; an environment whose parsers agree,
  and the specifications the build makes of the two sessions.
\<close>

definition exampleForwardingDefaults :: forwardingSessionConfiguration where
  "exampleForwardingDefaults =
     \<lparr>fwdSource = [], fwdDestination = [],
      fwdConfiguration = [''socketOverwriteMode'' \<mapsto> ''global''],
      fwdConfigurationSource = [''socketOwner'' \<mapsto> ''role''],
      fwdConfigurationDestination = Map.empty\<rparr>"

definition exampleWebSession :: forwardingSessionConfiguration where
  "exampleWebSession =
     \<lparr>fwdSource = ''tcp:localhost:8080'', fwdDestination = ''network://backend:tcp:web:80'',
      fwdConfiguration = Map.empty,
      fwdConfigurationSource = [''socketOwner'' \<mapsto> ''session''],
      fwdConfigurationDestination = Map.empty\<rparr>"

definition exampleDataSession :: synchronizationSessionConfiguration where
  "exampleDataSession =
     \<lparr>syncAlpha = ''./app'', syncBeta = ''volume://cache'',
      syncConfiguration = Map.empty, syncConfigurationAlpha = Map.empty,
      syncConfigurationBeta = Map.empty\<rparr>"

definition exampleSessions :: sessions where
  "exampleSessions =
     \<lparr>Forwarding = [(''defaults'', exampleForwardingDefaults), (''web'', exampleWebSession)],
      Synchronization = [(''data'', exampleDataSession)]\<rparr>"

definition exampleEnvironment :: environment where
  "exampleEnvironment =
     \<lparr>sidecarServiceName = ''mutagen'',
      sidecarImage = ''sidecar-image'',
      sidecarRoleLabelKey = ''role'',
      sidecarRoleLabelValue = ''sidecar'',
      sidecarVersionLabelKey = ''version'',
      Version = ''1'',
      ServiceConditionStarted = ''service_started'',
      Info = Inr ''linux'',
      NewDecoder = None,
      Decode = (\<lambda>raw. Inr exampleSessions),
      EnsureNameValid = (\<lambda>name. if name = [] then Some ''empty name'' else None),
      ForwardingEnsureValid = (\<lambda>c endpointSpecific. None),
      SynchronizationEnsureValid = (\<lambda>c endpointSpecific. None),
      isNetworkURL = (\<lambda>raw. take 10 raw = ''network://''),
      isVolumeURL = (\<lambda>raw. take 9 raw = ''volume://''),
      urlParse =
        (\<lambda>raw k first.
           if k = Kind_Forwarding \<and> take 4 raw \<noteq> ''tcp:'' \<and> take 5 raw \<noteq> ''unix:''
           then Inl ''invalid forwarding endpoint URL''
           else Inr \<lparr>Protocol = Protocol_Local, Host = [], Path = raw\<rparr>),
      forwardingurlParse =
        (\<lambda>raw. if take 4 raw = ''tcp:'' then Inr (''tcp'', drop 4 raw)
                else if take 5 raw = ''unix:'' then Inr (''unix'', drop 5 raw)
                else Inl ''invalid forwarding endpoint''),
      isTCPForwardingProtocol = (\<lambda>protocol. protocol = ''tcp''),
      parseNetworkURL =
        (\<lambda>raw. Inr (\<lparr>Protocol = Protocol_Docker, Host = ''sidecar'', Path = drop 10 raw\<rparr>,
                     takeWhile (\<lambda>c. c \<noteq> CHR '':'') (drop 10 raw))),
      parseVolumeURL =
        (\<lambda>raw osType.
           Inr (\<lparr>Protocol = Protocol_Docker, Host = ''sidecar'',
                 Path = ''/volumes/'' @ drop 9 raw\<rparr>,
                drop 9 raw)),
      filepathIsAbs = (\<lambda>path. take 1 path = ''/''),
      filepathJoin = (\<lambda>a b. a @ ''/'' @ b),
      filepathAbs = Inr,
      mountPathForVolumeInMutagenContainer = (\<lambda>osType volume. ''/volumes/'' @ volume)\<rparr>"

definition exampleProject :: project where
  "exampleProject =
     \<lparr>WorkingDir = ''/work'',
      Services =
        [\<lparr>ServiceName = ''web'', Image = ''nginx'', ServiceLabels = [],
          Networks = [''backend''],
          Volumes = [\<lparr>VolumeType = ''volume'', VolumeSource = ''cache'',
                      VolumeTarget = ''/data''\<rparr>],
          DependsOn = None\<rparr>],
      ProjectNetworks = {''backend''},
      ProjectVolumes = {''cache''},
      Extensions = [''x-mutagen'' \<mapsto> ''raw'']\<rparr>"

definition exampleWeb :: forwardingSpecification where
  "exampleWeb =
     \<lparr>SpecName = ''web'', Labels = [],
      Configuration = MergeConfigurations [''socketOverwriteMode'' \<mapsto> ''global''] Map.empty,
      Source = \<lparr>Protocol = Protocol_Local, Host = [], Path = ''tcp:localhost:8080''\<rparr>,
      Destination =
        \<lparr>Protocol = Protocol_Docker, Host = ''sidecar'', Path = ''backend:tcp:web:80''\<rparr>,
      ConfigurationSource =
        MergeConfigurations [''socketOwner'' \<mapsto> ''role''] [''socketOwner'' \<mapsto> ''session''],
      ConfigurationDestination = MergeConfigurations Map.empty Map.empty\<rparr>"

definition exampleData :: synchronizationSpecification where
  "exampleData =
     \<lparr>SpecName = ''data'', Labels = [],
      Configuration = MergeConfigurations Map.empty Map.empty,
      Alpha = \<lparr>Protocol = Protocol_Local, Host = [], Path = ''/work/./app''\<rparr>,
      Beta = \<lparr>Protocol = Protocol_Docker, Host = ''sidecar'', Path = ''/volumes/cache''\<rparr>,
      ConfigurationAlpha = MergeConfigurations Map.empty Map.empty,
      ConfigurationBeta = MergeConfigurations Map.empty Map.empty\<rparr>"

definition emptyLiaison :: liaison where
  "emptyLiaison = \<lparr>forwarding = [], synchronization = []\<rparr>"

section \<open>Classification of a listing\<close>

lemma classifySessions_snoc:
  "classifySessions desired (states @ [state]) pruneList nameToSession =
     (case classifySessions desired states pruneList nameToSession of
        (p, m) \<Rightarrow>
          if desired (Name state) = None \<or> m (Name state) \<noteq> None
          then (p @ [Identifier state], m)
          else (p, m(Name state \<mapsto> state)))"
  by (induction states arbitrary: pruneList nameToSession) auto

lemma find_snoc:
  "List.find P (xs @ [x]) =
     (case List.find P xs of Some y \<Rightarrow> Some y | None \<Rightarrow> if P x then Some x else None)"
  by (induction xs) auto

lemma prunedIndices_snoc:
  "prunedIndices desired (states @ [state]) =
     prunedIndices desired states @
       (if desired (Name state) = None \<or> Name state \<in> Name ` set states
        then [length states] else [])"
proof -
  have "filter (\<lambda>i. desired (Name ((states @ [state]) ! i)) = None \<or>
                  Name ((states @ [state]) ! i) \<in> Name ` set (take i (states @ [state])))
          [0..<length states]
        = filter (\<lambda>i. desired (Name (states ! i)) = None \<or>
                  Name (states ! i) \<in> Name ` set (take i states)) [0..<length states]"
    by (rule filter_cong) (auto simp: nth_append)
  then show ?thesis
    by (simp add: prunedIndices_def)
qed

text \<open>
  Claim C1. Classification of a listing, started with an empty prune list and an empty
  name map, prunes exactly the sessions at the orphan and duplicate positions, in
  listing order, and makes the first listed session of every specified name the current
  session of that name. So among the listed sessions of one specified name the first
  survives and every later one is pruned; the sessions of a name without specification
  are orphans, all pruned.
\<close>

theorem classifySessions_characterised:
  "classifySessions desired states [] Map.empty =
     (map (\<lambda>i. Identifier (states ! i)) (prunedIndices desired states),
      (\<lambda>n. if desired n = None then None else List.find (\<lambda>s. Name s = n) states))"
proof (induction states rule: rev_induct)
  case Nil
  show ?case by (auto simp: prunedIndices_def)
next
  case (snoc state states)
  have m: "map (\<lambda>i. Identifier ((states @ [state]) ! i)) (prunedIndices desired states)
         = map (\<lambda>i. Identifier (states ! i)) (prunedIndices desired states)"
    by (rule map_cong) (auto simp: prunedIndices_def nth_append)
  have f: "(List.find (\<lambda>s. Name s = Name state) states \<noteq> None) = (Name state \<in> Name ` set states)"
    by (auto simp: find_None_iff intro: rev_image_eqI)
  show ?case
    using f by (auto simp: classifySessions_snoc snoc.IH prunedIndices_snoc m find_snoc fun_eq_iff
        split: option.splits)
qed

text \<open>
  Three listed sessions, two of them named \<open>web\<close>, against one specification \<open>web\<close>:
  the first \<open>web\<close> session stays, the second and the orphan are pruned.
\<close>

theorem classification_witness:
  "classifySessions [''web'' \<mapsto> ()]
     [exampleForwardingSession ''a1'' ''web'', exampleForwardingSession ''a2'' ''web'',
      exampleForwardingSession ''a3'' ''old''] [] Map.empty =
   ([''a2'', ''a3''],
    [''web'' \<mapsto> exampleForwardingSession ''a1'' ''web''])"
  using classifySessions_characterised [of "[''web'' \<mapsto> ()]"
     "[exampleForwardingSession ''a1'' ''web'', exampleForwardingSession ''a2'' ''web'',
      exampleForwardingSession ''a3'' ''old'']"]
  by (auto simp: prunedIndices_def exampleForwardingSession_def fun_eq_iff)

section \<open>The apply phase\<close>

lemma created_append [simp]:
  "createdSynchronizationSessions (t @ u) =
     createdSynchronizationSessions t @ createdSynchronizationSessions u"
  by (simp add: createdSynchronizationSessions_def)

lemma created_Nil [simp]: "createdSynchronizationSessions [] = []"
  by (simp add: createdSynchronizationSessions_def)

lemma created_invoke:
  "invoke dm c d = (r, d', t) \<Longrightarrow> map fst t = [c] \<and> createdSynchronizationSessions t = []"
  by (auto simp: invoke_def createdSynchronizationSessions_def createdSession_def
      split: prod.splits option.splits call.splits)

lemma created_pruneSessions:
  "pruneSessions dm k p d = (r, d', t) \<Longrightarrow>
     map fst t = (if p = [] then [] else [TerminateWithSelection k (Specifications p)]) \<and>
     createdSynchronizationSessions t = []"
  by (auto simp: pruneSessions_def dest: created_invoke)

lemma createForwardingSessions_trace:
  "createForwardingSessions dm specs d = (r, d', t) \<Longrightarrow>
     prefix (map fst t) (map Forwarding_Create specs) \<and>
     createdSynchronizationSessions t = [] \<and>
     (r = None \<longrightarrow> map fst t = map Forwarding_Create specs)"
proof (induction specs arbitrary: d r d' t)
  case Nil
  then show ?case by simp
next
  case (Cons s specs)
  show ?case
  proof (cases "ForwardingCreate dm d s")
    case (Pair a d1)
    show ?thesis
    proof (cases a)
      case (Inl e)
      with Pair Cons.prems show ?thesis
        by (auto simp: createdSynchronizationSessions_def createdSession_def)
    next
      case (Inr i)
      obtain r2 d2 t2 where rest: "createForwardingSessions dm specs d1 = (r2, d2, t2)"
        by (cases "createForwardingSessions dm specs d1") auto
      from Cons.IH [OF rest] Pair Inr Cons.prems rest show ?thesis
        by (auto simp: createdSynchronizationSessions_def createdSession_def)
    qed
  qed
qed

lemma createSynchronizationSessions_trace:
  "createSynchronizationSessions dm specs new d = (r, d', t) \<Longrightarrow>
     prefix (map fst t) (map Synchronization_Create specs) \<and>
     (\<forall>ids. r = Inr ids \<longrightarrow>
        map fst t = map Synchronization_Create specs \<and>
        ids = new @ createdSynchronizationSessions t \<and>
        length (createdSynchronizationSessions t) = length specs) \<and>
     length (createdSynchronizationSessions t) \<le> length specs"
proof (induction specs arbitrary: new d r d' t)
  case Nil
  then show ?case by auto
next
  case (Cons s specs)
  show ?case
  proof (cases "SynchronizationCreate dm d s")
    case (Pair a d1)
    show ?thesis
    proof (cases a)
      case (Inl e)
      with Pair Cons.prems show ?thesis
        by (auto simp: createdSynchronizationSessions_def createdSession_def)
    next
      case (Inr i)
      obtain r2 d2 t2 where
        rest: "createSynchronizationSessions dm specs (new @ [i]) d1 = (r2, d2, t2)"
        by (cases "createSynchronizationSessions dm specs (new @ [i]) d1") auto
      from Cons.IH [OF rest] Pair Inr Cons.prems rest show ?thesis
        by (auto simp: createdSynchronizationSessions_def createdSession_def)
    qed
  qed
qed

lemma applyReconciliation_trace:
  assumes run: "applyReconciliation dm sel fp sp fc sc d = (r, d', t)"
  shows "prefix (map fst t) (applySequence sel fp sp fc sc (createdSynchronizationSessions t)) \<and>
         (r = Ok () \<longrightarrow>
            map fst t = applySequence sel fp sp fc sc (createdSynchronizationSessions t) \<and>
            length (createdSynchronizationSessions t) = length sc) \<and>
         length (createdSynchronizationSessions t) \<le> length sc"
proof -
  obtain r1 d1 t1 where s1: "pruneSessions dm Kind_Forwarding fp d = (r1, d1, t1)"
    by (cases "pruneSessions dm Kind_Forwarding fp d") auto
  obtain r2 d2 t2 where s2: "pruneSessions dm Kind_Synchronization sp d1 = (r2, d2, t2)"
    by (cases "pruneSessions dm Kind_Synchronization sp d1") auto
  obtain r3 d3 t3 where s3: "invoke dm (ResumeWithSelection Kind_Forwarding sel) d2 = (r3, d3, t3)"
    by (cases "invoke dm (ResumeWithSelection Kind_Forwarding sel) d2") auto
  obtain r4 d4 t4 where
    s4: "invoke dm (ResumeWithSelection Kind_Synchronization sel) d3 = (r4, d4, t4)"
    by (cases "invoke dm (ResumeWithSelection Kind_Synchronization sel) d3") auto
  obtain r5 d5 t5 where s5: "createForwardingSessions dm fc d4 = (r5, d5, t5)"
    by (cases "createForwardingSessions dm fc d4") auto
  obtain r6 d6 t6 where s6: "createSynchronizationSessions dm sc [] d5 = (r6, d6, t6)"
    by (cases "createSynchronizationSessions dm sc [] d5") auto
  note f1 = created_pruneSessions [OF s1] and f2 = created_pruneSessions [OF s2]
    and f3 = created_invoke [OF s3] and f4 = created_invoke [OF s4]
    and f5 = createForwardingSessions_trace [OF s5]
    and f6 = createSynchronizationSessions_trace [OF s6]
  show ?thesis
  proof (cases r1)
    case (Some e)
    with run s1 have "t = t1" "r \<noteq> Ok ()" by (auto simp: applyReconciliation_def)
    with f1 show ?thesis by (simp add: applySequence_def)
  next
    case n1: None
    show ?thesis
    proof (cases r2)
      case (Some e)
      with run s1 s2 n1 have "t = t1 @ t2" "r \<noteq> Ok ()"
        by (auto simp: applyReconciliation_def)
      with f1 f2 show ?thesis by (simp add: applySequence_def)
    next
      case n2: None
      show ?thesis
      proof (cases r3)
        case (Some e)
        with run s1 s2 s3 n1 n2 have "t = t1 @ t2 @ t3" "r \<noteq> Ok ()"
          by (auto simp: applyReconciliation_def)
        with f1 f2 f3 show ?thesis by (simp add: applySequence_def)
      next
        case n3: None
        show ?thesis
        proof (cases r4)
          case (Some e)
          with run s1 s2 s3 s4 n1 n2 n3 have "t = t1 @ t2 @ t3 @ t4" "r \<noteq> Ok ()"
            by (auto simp: applyReconciliation_def)
          with f1 f2 f3 f4 show ?thesis by (simp add: applySequence_def)
        next
          case n4: None
          show ?thesis
          proof (cases r5)
            case (Some e)
            with run s1 s2 s3 s4 s5 n1 n2 n3 n4
            have "t = t1 @ t2 @ t3 @ t4 @ t5" "r \<noteq> Ok ()"
              by (auto simp: applyReconciliation_def)
            with f1 f2 f3 f4 f5 show ?thesis by (simp add: applySequence_def)
          next
            case n5: None
            show ?thesis
            proof (cases r6)
              case (Inl e)
              with run s1 s2 s3 s4 s5 s6 n1 n2 n3 n4 n5
              have "t = t1 @ t2 @ t3 @ t4 @ t5 @ t6" "r \<noteq> Ok ()"
                by (auto simp: applyReconciliation_def)
              with f1 f2 f3 f4 f5 f6 n5 show ?thesis by (simp add: applySequence_def)
            next
              case (Inr ids)
              with f6 have ids: "ids = createdSynchronizationSessions t6"
                and all: "map fst t6 = map Synchronization_Create sc"
                and len: "length (createdSynchronizationSessions t6) = length sc"
                by simp_all
              show ?thesis
              proof (cases "ids = []")
                case True
                with run s1 s2 s3 s4 s5 s6 n1 n2 n3 n4 n5 Inr
                have "t = t1 @ t2 @ t3 @ t4 @ t5 @ t6"
                  by (simp add: applyReconciliation_def)
                with f1 f2 f3 f4 f5 n5 all len ids True show ?thesis
                  by (simp add: applySequence_def)
              next
                case False
                obtain r7 d7 t7 where
                  s7: "invoke dm (FlushWithSelection (Specifications ids) False) d6 = (r7, d7, t7)"
                  by (cases "invoke dm (FlushWithSelection (Specifications ids) False) d6") auto
                note f7 = created_invoke [OF s7]
                from run s1 s2 s3 s4 s5 s6 s7 n1 n2 n3 n4 n5 Inr False
                have "t = t1 @ t2 @ t3 @ t4 @ t5 @ t6 @ t7"
                  by (simp add: applyReconciliation_def split: option.splits)
                with f1 f2 f3 f4 f5 f7 n5 all len ids False show ?thesis
                  by (simp add: applySequence_def)
              qed
            qed
          qed
        qed
      qed
    qed
  qed
qed

lemma reconcileSessions_applied:
  assumes "Connect dm d = None"
    and "sel = LabelSelector
              (sessionSidecarLabelKey h @ '' == '' @ chopSidecarIdentifier h sidecarID)"
    and "ForwardingList dm d sel = Inr fs" and "ForwardingListingValid dm fs = None"
    and "SynchronizationList dm d sel = Inr ss" and "SynchronizationListingValid dm ss = None"
    and "l' = reifySpecifications h sidecarID l"
  shows "reconcileSessions h dm l sidecarID d =
     (case applyReconciliation dm sel
           (fst (planSessions (forwardingSessionCurrent h) (forwarding l') fs))
           (fst (planSessions (synchronizationSessionCurrent h) (synchronization l') ss))
           (snd (planSessions (forwardingSessionCurrent h) (forwarding l') fs))
           (snd (planSessions (synchronizationSessionCurrent h) (synchronization l') ss)) d of
        (r, d', t) \<Rightarrow>
          (r, l', d',
           [(Daemon_Connect, Succeeded), (Forwarding_List sel, ForwardingStates fs),
            (Synchronization_List sel, SynchronizationStates ss)] @ t))"
  using assms unfolding reconcileSessions_def planSessions_def Let_def
  by (simp split: prod.splits)

lemma reconcileSessions_stopped:
  assumes run: "reconcileSessions h dm l sidecarID d = (r, l', d', t)"
    and sel: "sel = LabelSelector
              (sessionSidecarLabelKey h @ '' == '' @ chopSidecarIdentifier h sidecarID)"
    and stop: "Connect dm d \<noteq> None \<or>
      (\<forall>fs. ForwardingList dm d sel = Inr fs \<longrightarrow>
         ForwardingListingValid dm fs \<noteq> None \<or>
         (\<forall>ss. SynchronizationList dm d sel = Inr ss \<longrightarrow>
                SynchronizationListingValid dm ss \<noteq> None))"
  shows "r \<noteq> Ok () \<and> l' = reifySpecifications h sidecarID l \<and> d' = d \<and>
         prefix (map fst t) [Daemon_Connect, Forwarding_List sel, Synchronization_List sel] \<and>
         createdSynchronizationSessions t = [] \<and> (\<exists>e. r = Err e)"
proof (cases "Connect dm d")
  case (Some e)
  with run show ?thesis
    by (auto simp: reconcileSessions_def Let_def createdSynchronizationSessions_def
        createdSession_def)
next
  case c: None
  show ?thesis
  proof (cases "ForwardingList dm d sel")
    case (Inl e)
    with run c sel show ?thesis
      by (auto simp: reconcileSessions_def Let_def createdSynchronizationSessions_def
          createdSession_def)
  next
    case lf: (Inr fs)
    show ?thesis
    proof (cases "ForwardingListingValid dm fs")
      case (Some e)
      with run c lf sel show ?thesis
        by (auto simp: reconcileSessions_def Let_def createdSynchronizationSessions_def
            createdSession_def)
    next
      case vf: None
      show ?thesis
      proof (cases "SynchronizationList dm d sel")
        case (Inl e)
        with run c lf vf sel show ?thesis
          by (auto simp: reconcileSessions_def Let_def createdSynchronizationSessions_def
              createdSession_def)
      next
        case ls: (Inr ss)
        with stop c lf vf obtain e where "SynchronizationListingValid dm ss = Some e"
          by auto
        with run c lf vf ls sel show ?thesis
          by (auto simp: reconcileSessions_def Let_def createdSynchronizationSessions_def
              createdSession_def)
      qed
    qed
  qed
qed

lemma stopped_or_applied:
  assumes run: "reconcileSessions h dm l sidecarID d = (r, l', d', t)"
    and sel: "sel = LabelSelector
              (sessionSidecarLabelKey h @ '' == '' @ chopSidecarIdentifier h sidecarID)"
  obtains (stopped) "r \<noteq> Ok ()" "l' = reifySpecifications h sidecarID l" "d' = d"
      "prefix (map fst t) [Daemon_Connect, Forwarding_List sel, Synchronization_List sel]"
      "createdSynchronizationSessions t = []" "\<exists>e. r = Err e"
  | (applied) fs ss t' where "l' = reifySpecifications h sidecarID l"
      "t = [(Daemon_Connect, Succeeded), (Forwarding_List sel, ForwardingStates fs),
            (Synchronization_List sel, SynchronizationStates ss)] @ t'"
      "applyReconciliation dm sel
           (fst (planSessions (forwardingSessionCurrent h) (forwarding l') fs))
           (fst (planSessions (synchronizationSessionCurrent h) (synchronization l') ss))
           (snd (planSessions (forwardingSessionCurrent h) (forwarding l') fs))
           (snd (planSessions (synchronizationSessionCurrent h) (synchronization l') ss)) d
         = (r, d', t')"
proof (cases "Connect dm d \<noteq> None \<or>
      (\<forall>fs. ForwardingList dm d sel = Inr fs \<longrightarrow>
         ForwardingListingValid dm fs \<noteq> None \<or>
         (\<forall>ss. SynchronizationList dm d sel = Inr ss \<longrightarrow>
                SynchronizationListingValid dm ss \<noteq> None))")
  case True
  from reconcileSessions_stopped [OF run sel True] show ?thesis
    by (intro stopped) simp_all
next
  case False
  then obtain fs ss where ok: "Connect dm d = None" "ForwardingList dm d sel = Inr fs"
    "ForwardingListingValid dm fs = None" "SynchronizationList dm d sel = Inr ss"
    "SynchronizationListingValid dm ss = None"
    by auto
  let ?l = "reifySpecifications h sidecarID l"
  obtain r0 d0 t0 where ap: "applyReconciliation dm sel
           (fst (planSessions (forwardingSessionCurrent h) (forwarding ?l) fs))
           (fst (planSessions (synchronizationSessionCurrent h) (synchronization ?l) ss))
           (snd (planSessions (forwardingSessionCurrent h) (forwarding ?l) fs))
           (snd (planSessions (synchronizationSessionCurrent h) (synchronization ?l) ss)) d
         = (r0, d0, t0)"
    using prod_cases3 by blast
  from run reconcileSessions_applied [OF ok(1) sel ok(2-5) refl, of l] ap
  have "r = r0" "l' = ?l" "d' = d0"
    "t = [(Daemon_Connect, Succeeded), (Forwarding_List sel, ForwardingStates fs),
            (Synchronization_List sel, SynchronizationStates ss)] @ t0"
    by simp_all
  with ap show ?thesis
    by (intro applied [of fs ss t0]) simp_all
qed

lemma stopsAtFailure_append:
  "stopsAtFailure False t \<Longrightarrow> stopsAtFailure err u \<Longrightarrow> stopsAtFailure err (t @ u)"
  by (auto simp: stopsAtFailure_def butlast_append)

lemma stopsAtFailure_Nil [simp]: "stopsAtFailure False []"
  by (simp add: stopsAtFailure_def)

lemma stopsAtFailure_facts:
  "stopsAtFailure err t \<Longrightarrow>
     (\<forall>x \<in> set (butlast t). \<not> failed x) \<and>
     (\<not> err \<longrightarrow> (\<forall>x \<in> set t. \<not> failed x)) \<and>
     (err \<longrightarrow> t \<noteq> [] \<and> failed (last t))"
  by (cases err) (auto simp: stopsAtFailure_def dest: in_set_butlastD)

lemma invoke_stops:
  "invoke dm c d = (r, d', t) \<Longrightarrow> stopsAtFailure (r \<noteq> None) t"
  by (auto simp: invoke_def stopsAtFailure_def failed_def split: prod.splits option.splits)

lemma pruneSessions_stops:
  "pruneSessions dm k p d = (r, d', t) \<Longrightarrow> stopsAtFailure (r \<noteq> None) t"
  by (auto simp: pruneSessions_def dest: invoke_stops split: if_splits)

lemma createForwardingSessions_stops:
  "createForwardingSessions dm specs d = (r, d', t) \<Longrightarrow> stopsAtFailure (r \<noteq> None) t"
proof (induction specs arbitrary: d r d' t)
  case Nil
  then show ?case by simp
next
  case (Cons s specs)
  show ?case
  proof (cases "ForwardingCreate dm d s")
    case (Pair a d1)
    show ?thesis
    proof (cases a)
      case (Inl e)
      with Pair Cons.prems show ?thesis
        by (auto simp: stopsAtFailure_def failed_def)
    next
      case (Inr i)
      obtain r2 d2 t2 where rest: "createForwardingSessions dm specs d1 = (r2, d2, t2)"
        by (cases "createForwardingSessions dm specs d1") auto
      have "stopsAtFailure False [(Forwarding_Create s, Created i)]"
        by (simp add: stopsAtFailure_def failed_def)
      from stopsAtFailure_append [OF this Cons.IH [OF rest]] Pair Inr Cons.prems rest
      show ?thesis by auto
    qed
  qed
qed

lemma createSynchronizationSessions_stops:
  "createSynchronizationSessions dm specs new d = (r, d', t) \<Longrightarrow> stopsAtFailure (isl r) t"
proof (induction specs arbitrary: new d r d' t)
  case Nil
  then show ?case by auto
next
  case (Cons s specs)
  show ?case
  proof (cases "SynchronizationCreate dm d s")
    case (Pair a d1)
    show ?thesis
    proof (cases a)
      case (Inl e)
      with Pair Cons.prems show ?thesis
        by (auto simp: stopsAtFailure_def failed_def)
    next
      case (Inr i)
      obtain r2 d2 t2 where
        rest: "createSynchronizationSessions dm specs (new @ [i]) d1 = (r2, d2, t2)"
        by (cases "createSynchronizationSessions dm specs (new @ [i]) d1") auto
      have "stopsAtFailure False [(Synchronization_Create s, Created i)]"
        by (simp add: stopsAtFailure_def failed_def)
      from stopsAtFailure_append [OF this Cons.IH [OF rest]] Pair Inr Cons.prems rest
      show ?thesis by auto
    qed
  qed
qed

lemma applyReconciliation_stops:
  assumes run: "applyReconciliation dm sel fp sp fc sc d = (r, d', t)"
  shows "stopsAtFailure (r \<noteq> Ok ()) t \<and> t \<noteq> []"
proof -
  obtain r1 d1 t1 where s1: "pruneSessions dm Kind_Forwarding fp d = (r1, d1, t1)"
    by (cases "pruneSessions dm Kind_Forwarding fp d") auto
  obtain r2 d2 t2 where s2: "pruneSessions dm Kind_Synchronization sp d1 = (r2, d2, t2)"
    by (cases "pruneSessions dm Kind_Synchronization sp d1") auto
  obtain r3 d3 t3 where s3: "invoke dm (ResumeWithSelection Kind_Forwarding sel) d2 = (r3, d3, t3)"
    by (cases "invoke dm (ResumeWithSelection Kind_Forwarding sel) d2") auto
  obtain r4 d4 t4 where
    s4: "invoke dm (ResumeWithSelection Kind_Synchronization sel) d3 = (r4, d4, t4)"
    by (cases "invoke dm (ResumeWithSelection Kind_Synchronization sel) d3") auto
  obtain r5 d5 t5 where s5: "createForwardingSessions dm fc d4 = (r5, d5, t5)"
    by (cases "createForwardingSessions dm fc d4") auto
  obtain r6 d6 t6 where s6: "createSynchronizationSessions dm sc [] d5 = (r6, d6, t6)"
    by (cases "createSynchronizationSessions dm sc [] d5") auto
  note f1 = pruneSessions_stops [OF s1] and f2 = pruneSessions_stops [OF s2]
    and f3 = invoke_stops [OF s3] and f4 = invoke_stops [OF s4]
    and f5 = createForwardingSessions_stops [OF s5]
    and f6 = createSynchronizationSessions_stops [OF s6]
  have ne3: "t3 \<noteq> []" using s3 by (auto simp: invoke_def split: prod.splits option.splits)
  show ?thesis
  proof (cases r1)
    case (Some e)
    with run s1 have "t = t1" "r \<noteq> Ok ()" by (auto simp: applyReconciliation_def)
    with f1 Some show ?thesis by (auto simp: stopsAtFailure_def)
  next
    case n1: None
    with f1 have g1: "stopsAtFailure False t1" by simp
    show ?thesis
    proof (cases r2)
      case (Some e)
      with run s1 s2 n1 have "t = t1 @ t2" "r \<noteq> Ok ()"
        by (auto simp: applyReconciliation_def)
      with stopsAtFailure_append [OF g1 f2] Some show ?thesis
        by (auto simp: stopsAtFailure_def)
    next
      case n2: None
      with f2 have g2: "stopsAtFailure False t2" by simp
      note g12 = stopsAtFailure_append [OF g1 g2]
      show ?thesis
      proof (cases r3)
        case (Some e)
        with run s1 s2 s3 n1 n2 have "t = (t1 @ t2) @ t3" "r \<noteq> Ok ()"
          by (auto simp: applyReconciliation_def)
        with stopsAtFailure_append [OF g12 f3] Some ne3 show ?thesis
          by auto
      next
        case n3: None
        with f3 have g3: "stopsAtFailure False t3" by simp
        note g13 = stopsAtFailure_append [OF g12 g3]
        show ?thesis
        proof (cases r4)
          case (Some e)
          with run s1 s2 s3 s4 n1 n2 n3 have "t = ((t1 @ t2) @ t3) @ t4" "r \<noteq> Ok ()"
            by (auto simp: applyReconciliation_def)
          with stopsAtFailure_append [OF g13 f4] Some ne3 show ?thesis
            by auto
        next
          case n4: None
          with f4 have g4: "stopsAtFailure False t4" by simp
          note g14 = stopsAtFailure_append [OF g13 g4]
          show ?thesis
          proof (cases r5)
            case (Some e)
            with run s1 s2 s3 s4 s5 n1 n2 n3 n4
            have "t = (((t1 @ t2) @ t3) @ t4) @ t5" "r \<noteq> Ok ()"
              by (auto simp: applyReconciliation_def)
            with stopsAtFailure_append [OF g14 f5] Some ne3 show ?thesis
              by auto
          next
            case n5: None
            with f5 have g5: "stopsAtFailure False t5" by simp
            note g15 = stopsAtFailure_append [OF g14 g5]
            show ?thesis
            proof (cases r6)
              case (Inl e)
              with run s1 s2 s3 s4 s5 s6 n1 n2 n3 n4 n5
              have "t = ((((t1 @ t2) @ t3) @ t4) @ t5) @ t6" "r \<noteq> Ok ()"
                by (auto simp: applyReconciliation_def)
              with stopsAtFailure_append [OF g15 f6] Inl ne3 show ?thesis
                by auto
            next
              case (Inr ids)
              with f6 have g6: "stopsAtFailure False t6" by simp
              note g16 = stopsAtFailure_append [OF g15 g6]
              show ?thesis
              proof (cases "ids = []")
                case True
                with run s1 s2 s3 s4 s5 s6 n1 n2 n3 n4 n5 Inr
                have "t = ((((t1 @ t2) @ t3) @ t4) @ t5) @ t6" "r = Ok ()"
                  by (auto simp: applyReconciliation_def)
                with g16 ne3 show ?thesis by auto
              next
                case False
                obtain r7 d7 t7 where
                  s7: "invoke dm (FlushWithSelection (Specifications ids) False) d6 = (r7, d7, t7)"
                  by (cases "invoke dm (FlushWithSelection (Specifications ids) False) d6") auto
                note f7 = invoke_stops [OF s7]
                from run s1 s2 s3 s4 s5 s6 s7 n1 n2 n3 n4 n5 Inr False
                have "t = (((((t1 @ t2) @ t3) @ t4) @ t5) @ t6) @ t7" "(r \<noteq> Ok ()) = (r7 \<noteq> None)"
                  by (auto simp: applyReconciliation_def split: option.splits)
                with stopsAtFailure_append [OF g16 f7] ne3 show ?thesis
                  by auto
              qed
            qed
          qed
        qed
      qed
    qed
  qed
qed

lemma reconcileSessions_failure:
  assumes run: "reconcileSessions h dm l sidecarID d = (r, l', d', t)"
    and sel: "sel = LabelSelector
              (sessionSidecarLabelKey h @ '' == '' @ chopSidecarIdentifier h sidecarID)"
  shows "t \<noteq> [] \<and> fst (hd t) = Daemon_Connect \<and>
         (\<forall>x \<in> set (butlast t). \<not> failed x) \<and>
         (r = Ok () \<longrightarrow> (\<forall>x \<in> set t. \<not> failed x)) \<and>
         (r \<noteq> Ok () \<longrightarrow> failed (last t) \<or> rejectedListing dm (last t)) \<and>
         (Connect dm d = None \<longrightarrow>
            2 \<le> length t \<and> fst (t ! 1) = Forwarding_List sel \<and>
            (\<not> failed (t ! 1) \<and> \<not> rejectedListing dm (t ! 1) \<longrightarrow>
               3 \<le> length t \<and> fst (t ! 2) = Synchronization_List sel))"
proof (cases "Connect dm d")
  case (Some e)
  with run show ?thesis
    by (auto simp: reconcileSessions_def Let_def failed_def)
next
  case c: None
  show ?thesis
  proof (cases "ForwardingList dm d sel")
    case (Inl e)
    with run c sel show ?thesis
      by (auto simp: reconcileSessions_def Let_def failed_def)
  next
    case lf: (Inr fs)
    show ?thesis
    proof (cases "ForwardingListingValid dm fs")
      case (Some e)
      with run c lf sel show ?thesis
        by (auto simp: reconcileSessions_def Let_def failed_def rejectedListing_def)
    next
      case vf: None
      show ?thesis
      proof (cases "SynchronizationList dm d sel")
        case (Inl e)
        with run c lf vf sel show ?thesis
          by (auto simp: reconcileSessions_def Let_def failed_def)
      next
        case ls: (Inr ss)
        show ?thesis
        proof (cases "SynchronizationListingValid dm ss")
          case (Some e)
          with run c lf vf ls sel show ?thesis
            by (auto simp: reconcileSessions_def Let_def failed_def rejectedListing_def)
        next
          case vs: None
          let ?l = "reifySpecifications h sidecarID l"
          let ?pre = "[(Daemon_Connect, Succeeded), (Forwarding_List sel, ForwardingStates fs),
              (Synchronization_List sel, SynchronizationStates ss)]"
          obtain r0 d0 t0 where ap: "applyReconciliation dm sel
             (fst (planSessions (forwardingSessionCurrent h) (forwarding ?l) fs))
             (fst (planSessions (synchronizationSessionCurrent h) (synchronization ?l) ss))
             (snd (planSessions (forwardingSessionCurrent h) (forwarding ?l) fs))
             (snd (planSessions (synchronizationSessionCurrent h) (synchronization ?l) ss)) d
             = (r0, d0, t0)"
            using prod_cases3 by blast
          from run reconcileSessions_applied [OF c sel lf vf ls vs refl, of l] ap
          have eq: "r = r0" "t = ?pre @ t0"
            by simp_all
          have pre: "stopsAtFailure False ?pre"
            by (simp add: stopsAtFailure_def failed_def)
          from applyReconciliation_stops [OF ap]
          have st: "stopsAtFailure (r0 \<noteq> Ok ()) t0" and ne: "t0 \<noteq> []" by simp_all
          from stopsAtFailure_append [OF pre st] eq
          have all: "stopsAtFailure (r \<noteq> Ok ()) t" by simp
          from eq have shape: "t \<noteq> []" "fst (hd t) = Daemon_Connect" "2 \<le> length t"
            "fst (t ! 1) = Forwarding_List sel" "3 \<le> length t"
            "fst (t ! 2) = Synchronization_List sel"
            by (simp_all add: eval_nat_numeral)
          from stopsAtFailure_facts [OF all] shape show ?thesis
            by blast
        qed
      qed
    qed
  qed
qed


lemma example_run:
  "reconcileSessions exampleHelpers exampleDaemon exampleLiaison ''0123456789'' 0 =
     (Ok (),
      \<lparr>forwarding = [(''web'', exampleForwarding\<lparr>Labels := [(''sidecar'', ''0123'')]\<rparr>)],
       synchronization =
         [(''data'', exampleSynchronization\<lparr>Labels := [(''sidecar'', ''0123'')]\<rparr>)]\<rparr>,
      6,
      [(Daemon_Connect, Succeeded),
       (Forwarding_List (LabelSelector ''sidecar == 0123''),
        ForwardingStates [exampleForwardingSession ''f1'' ''old'']),
       (Synchronization_List (LabelSelector ''sidecar == 0123''), SynchronizationStates []),
       (TerminateWithSelection Kind_Forwarding (Specifications [''f1'']), Succeeded),
       (ResumeWithSelection Kind_Forwarding (LabelSelector ''sidecar == 0123''), Succeeded),
       (ResumeWithSelection Kind_Synchronization (LabelSelector ''sidecar == 0123''),
        Succeeded),
       (Forwarding_Create (exampleForwarding\<lparr>Labels := [(''sidecar'', ''0123'')]\<rparr>),
        Created ''fwd_web''),
       (Synchronization_Create
          (exampleSynchronization\<lparr>Labels := [(''sidecar'', ''0123'')]\<rparr>),
        Created ''sync_data''),
       (FlushWithSelection (Specifications [''sync_data'']) False, Succeeded)])"
  by (simp add: reconcileSessions_def reifySpecifications_def reifySynchronization_def
      reifyForwarding_def applyReconciliation_def pruneSessions_def invoke_def
      exampleHelpers_def exampleDaemon_def exampleLiaison_def exampleSynchronization_def
      exampleForwarding_def exampleForwardingSession_def exampleURL_def Let_def
      eval_nat_numeral)



section \<open>No specifications\<close>

lemma classifySessions_no_specifications:
  "classifySessions Map.empty states pruneList nameToSession =
     (pruneList @ map Identifier states, nameToSession)"
  by (induction states arbitrary: pruneList) simp_all

lemma planSessions_no_specifications:
  "planSessions current [] states = (map Identifier states, [])"
  by (simp add: planSessions_def classifySessions_no_specifications)

lemma reconcileSessions_no_specifications:
  assumes e: "forwarding l = []" "synchronization l = []"
    and run: "reconcileSessions h dm l sidecarID d = (r, l', d', t)"
    and listed: "take 3 t =
        [(Daemon_Connect, Succeeded), (Forwarding_List sel, ForwardingStates fs),
         (Synchronization_List sel, SynchronizationStates ss)]"
  shows "prefix (map fst (drop 3 t))
        (applySequence sel (map Identifier fs) (map Identifier ss) [] [] []) \<and>
      (r = Ok () \<longrightarrow>
         map fst (drop 3 t) =
           applySequence sel (map Identifier fs) (map Identifier ss) [] [] [])"
proof -
  define sel0 where "sel0 = LabelSelector
              (sessionSidecarLabelKey h @ '' == '' @ chopSidecarIdentifier h sidecarID)"
  from run sel0_def show ?thesis
  proof (cases rule: stopped_or_applied)
    case stopped
    have "drop 3 t = []"
      using stopped(4) by (auto dest: prefix_length_le)
    with stopped(1) show ?thesis by simp
  next
    case (applied fs0 ss0 t')
    from applied(1) e have l': "forwarding l' = []" "synchronization l' = []"
      by (simp_all add: reifySpecifications_def Let_def)
    from applied(2) listed have eq: "sel = sel0" "fs = fs0" "ss = ss0" "drop 3 t = t'"
      by simp_all
    from applyReconciliation_trace [OF applied(3)] l' eq
    show ?thesis by (auto simp: planSessions_no_specifications)
  qed
qed

text \<open>
  Claim C3. With no specification of either kind, the plan for a listing prunes every
  listed session and creates nothing; and a pass over listings \<open>fs\<close> and \<open>ss\<close> sends,
  after the listings, only the terminations of all of \<open>fs\<close> and all of \<open>ss\<close> and the
  two resumptions: all of them when it returns without error, and never a creation or a
  flush.
\<close>

theorem no_specifications_prune_all:
  "planSessions current [] states = (map Identifier states, []) \<and>
   (\<forall>h dm l sidecarID d r l' d' t sel fs ss.
      forwarding l = [] \<and> synchronization l = [] \<and>
      reconcileSessions h dm l sidecarID (d::'d) = (r, l', d', t) \<and>
      take 3 t =
        [(Daemon_Connect, Succeeded), (Forwarding_List sel, ForwardingStates fs),
         (Synchronization_List sel, SynchronizationStates ss)] \<longrightarrow>
      prefix (map fst (drop 3 t))
        (applySequence sel (map Identifier fs) (map Identifier ss) [] [] []) \<and>
      (r = Ok () \<longrightarrow>
         map fst (drop 3 t) =
           applySequence sel (map Identifier fs) (map Identifier ss) [] [] []))"
proof (rule conjI)
  show "planSessions current [] states = (map Identifier states, [])"
    by (rule planSessions_no_specifications)
next
  show "\<forall>h dm l sidecarID d r l' d' t sel fs ss.
      forwarding l = [] \<and> synchronization l = [] \<and>
      reconcileSessions h dm l sidecarID (d::'d) = (r, l', d', t) \<and>
      take 3 t =
        [(Daemon_Connect, Succeeded), (Forwarding_List sel, ForwardingStates fs),
         (Synchronization_List sel, SynchronizationStates ss)] \<longrightarrow>
      prefix (map fst (drop 3 t))
        (applySequence sel (map Identifier fs) (map Identifier ss) [] [] []) \<and>
      (r = Ok () \<longrightarrow>
         map fst (drop 3 t) =
           applySequence sel (map Identifier fs) (map Identifier ss) [] [] [])"
    by (intro allI impI, elim conjE, rule reconcileSessions_no_specifications)
qed

lemma example_run_no_specifications:
  "reconcileSessions exampleHelpers exampleDaemon \<lparr>forwarding = [], synchronization = []\<rparr>
     ''0123456789'' 0 =
     (Ok (), \<lparr>forwarding = [], synchronization = []\<rparr>, 3,
      [(Daemon_Connect, Succeeded),
       (Forwarding_List (LabelSelector ''sidecar == 0123''),
        ForwardingStates [exampleForwardingSession ''f1'' ''old'']),
       (Synchronization_List (LabelSelector ''sidecar == 0123''), SynchronizationStates []),
       (TerminateWithSelection Kind_Forwarding (Specifications [''f1'']), Succeeded),
       (ResumeWithSelection Kind_Forwarding (LabelSelector ''sidecar == 0123''), Succeeded),
       (ResumeWithSelection Kind_Synchronization (LabelSelector ''sidecar == 0123''),
        Succeeded)])"
  by (simp add: reconcileSessions_def reifySpecifications_def
      applyReconciliation_def pruneSessions_def invoke_def exampleHelpers_def
      exampleDaemon_def exampleForwardingSession_def exampleURL_def Let_def eval_nat_numeral)

theorem no_specifications_prune_all_witness:
  "planSessions (forwardingSessionCurrent exampleHelpers) []
     [exampleForwardingSession ''f1'' ''old''] = ([''f1''], []) \<and>
   (\<exists>l' d' t.
      reconcileSessions exampleHelpers exampleDaemon \<lparr>forwarding = [], synchronization = []\<rparr>
        ''0123456789'' 0 = (Ok (), l', d', t) \<and>
      map fst (drop 3 t) =
        [TerminateWithSelection Kind_Forwarding (Specifications [''f1'']),
         ResumeWithSelection Kind_Forwarding (LabelSelector ''sidecar == 0123''),
         ResumeWithSelection Kind_Synchronization (LabelSelector ''sidecar == 0123'')])"
proof -
  note t = no_specifications_prune_all [of "forwardingSessionCurrent exampleHelpers"
      "[exampleForwardingSession ''f1'' ''old'']"]
  from t [THEN conjunct1] have 1: "planSessions (forwardingSessionCurrent exampleHelpers) []
     [exampleForwardingSession ''f1'' ''old''] = ([''f1''], [])"
    by (simp add: exampleForwardingSession_def)
  from t [THEN conjunct2, rule_format, OF conjI [OF _ conjI [OF _ conjI [OF example_run_no_specifications]]]]
  have 2: "map fst (drop 3
      [(Daemon_Connect, Succeeded),
       (Forwarding_List (LabelSelector ''sidecar == 0123''),
        ForwardingStates [exampleForwardingSession ''f1'' ''old'']),
       (Synchronization_List (LabelSelector ''sidecar == 0123''), SynchronizationStates []),
       (TerminateWithSelection Kind_Forwarding (Specifications [''f1'']), Succeeded),
       (ResumeWithSelection Kind_Forwarding (LabelSelector ''sidecar == 0123''), Succeeded),
       (ResumeWithSelection Kind_Synchronization (LabelSelector ''sidecar == 0123''),
        Succeeded)]) =
      applySequence (LabelSelector ''sidecar == 0123'')
        (map Identifier [exampleForwardingSession ''f1'' ''old''])
        (map Identifier ([] :: synchronizationSession list)) [] [] []"
    by simp
  from 1 2 example_run_no_specifications show ?thesis
    by (simp add: applySequence_def exampleForwardingSession_def)
qed

section \<open>The ownership label\<close>

lemma identifyCreations_subset:
  "set (snd (identifyCreations current nameToSession specifications pruneList create))
     \<subseteq> set create \<union> snd ` set specifications"
proof (induction specifications arbitrary: pruneList create)
  case Nil
  show ?case by simp
next
  case (Cons a specifications)
  obtain name c where a: "a = (name, c)"
    by (cases a) auto
  show ?case
  proof (cases "nameToSession name")
    case None
    with a Cons.IH [of pruneList "create @ [c]"] show ?thesis by auto
  next
    case (Some existing)
    with a Cons.IH [of pruneList create]
      Cons.IH [of "pruneList @ [Identifier existing]" "create @ [c]"]
    show ?thesis by auto
  qed
qed

lemma planSessions_subset:
  "set (snd (planSessions current specifications states)) \<subseteq> snd ` set specifications"
  using identifyCreations_subset [of current _ specifications _ "[]"]
  by (auto simp: planSessions_def split: prod.splits)

lemma reifySpecifications_labels:
  "(\<forall>(n, s) \<in> set (forwarding (reifySpecifications h sidecarID l)).
      Labels s = [(sessionSidecarLabelKey h, chopSidecarIdentifier h sidecarID)]) \<and>
   (\<forall>(n, s) \<in> set (synchronization (reifySpecifications h sidecarID l)).
      Labels s = [(sessionSidecarLabelKey h, chopSidecarIdentifier h sidecarID)])"
  by (auto simp: reifySpecifications_def reifyForwarding_def reifySynchronization_def Let_def)

lemma reconcileSessions_selection:
  assumes run: "reconcileSessions h dm l sidecarID d = (r, l', d', t)"
    and sel: "sel = LabelSelector
              (sessionSidecarLabelKey h @ '' == '' @ chopSidecarIdentifier h sidecarID)"
  shows "\<exists>fp sp fc sc ids.
     set fc \<subseteq> snd ` set (forwarding l') \<and> set sc \<subseteq> snd ` set (synchronization l') \<and>
     prefix (map fst t)
       ([Daemon_Connect, Forwarding_List sel, Synchronization_List sel] @
        applySequence sel fp sp fc sc ids) \<and>
     (r = Ok () \<longrightarrow>
        map fst t =
          [Daemon_Connect, Forwarding_List sel, Synchronization_List sel] @
          applySequence sel fp sp fc sc ids)"
  using run sel
proof (cases rule: stopped_or_applied)
  case stopped
  from stopped(4) have "prefix (map fst t)
       ([Daemon_Connect, Forwarding_List sel, Synchronization_List sel] @
        applySequence sel [] [] [] [] [])"
    by (rule prefix_prefix)
  with stopped(1) have "set [] \<subseteq> snd ` set (forwarding l') \<and>
     set [] \<subseteq> snd ` set (synchronization l') \<and>
     prefix (map fst t)
       ([Daemon_Connect, Forwarding_List sel, Synchronization_List sel] @
        applySequence sel [] [] [] [] []) \<and>
     (r = Ok () \<longrightarrow>
        map fst t =
          [Daemon_Connect, Forwarding_List sel, Synchronization_List sel] @
          applySequence sel [] [] [] [] [])"
    by simp
  then show ?thesis by blast
next
  case (applied fs ss t')
  from applyReconciliation_trace [OF applied(3)] applied(2)
  have p: "prefix (map fst t)
       ([Daemon_Connect, Forwarding_List sel, Synchronization_List sel] @
        applySequence sel
          (fst (planSessions (forwardingSessionCurrent h) (forwarding l') fs))
          (fst (planSessions (synchronizationSessionCurrent h) (synchronization l') ss))
          (snd (planSessions (forwardingSessionCurrent h) (forwarding l') fs))
          (snd (planSessions (synchronizationSessionCurrent h) (synchronization l') ss))
          (createdSynchronizationSessions t'))"
    by simp
  from applyReconciliation_trace [OF applied(3)] applied(2)
  have q: "r = Ok () \<longrightarrow>
       map fst t =
         [Daemon_Connect, Forwarding_List sel, Synchronization_List sel] @
         applySequence sel
          (fst (planSessions (forwardingSessionCurrent h) (forwarding l') fs))
          (fst (planSessions (synchronizationSessionCurrent h) (synchronization l') ss))
          (snd (planSessions (forwardingSessionCurrent h) (forwarding l') fs))
          (snd (planSessions (synchronizationSessionCurrent h) (synchronization l') ss))
          (createdSynchronizationSessions t')"
    by simp
  show ?thesis
    by (intro exI conjI) (rule planSessions_subset, rule planSessions_subset, rule p, rule q)
qed

lemma reconcileSessions_ownership:
  assumes run: "reconcileSessions h dm l sidecarID d = (r, l', d', t)"
    and sel: "sel = LabelSelector
              (sessionSidecarLabelKey h @ '' == '' @ chopSidecarIdentifier h sidecarID)"
    and lab: "lab = (sessionSidecarLabelKey h, chopSidecarIdentifier h sidecarID)"
  shows "(\<forall>(n, s) \<in> set (forwarding l'). Labels s = [lab]) \<and>
      (\<forall>(n, s) \<in> set (synchronization l'). Labels s = [lab]) \<and>
      (\<exists>fp sp fc sc ids.
         (\<forall>s \<in> set fc. Labels s = [lab]) \<and>
         (\<forall>s \<in> set sc. Labels s = [lab]) \<and>
         prefix (map fst t)
           ([Daemon_Connect, Forwarding_List sel, Synchronization_List sel] @
            applySequence sel fp sp fc sc ids) \<and>
         (r = Ok () \<longrightarrow>
            map fst t =
              [Daemon_Connect, Forwarding_List sel, Synchronization_List sel] @
              applySequence sel fp sp fc sc ids)) \<and>
      t \<noteq> [] \<and>
      (r \<noteq> Ok () \<longrightarrow> failed (last t) \<or> rejectedListing dm (last t)) \<and>
      (Connect dm d = None \<longrightarrow>
         2 \<le> length t \<and> fst (t ! 1) = Forwarding_List sel \<and>
         (\<not> failed (t ! 1) \<and> \<not> rejectedListing dm (t ! 1) \<longrightarrow>
            3 \<le> length t \<and> fst (t ! 2) = Synchronization_List sel))"
proof -
  have l': "l' = reifySpecifications h sidecarID l"
    using run refl by (cases rule: stopped_or_applied) simp_all
  from reifySpecifications_labels [of h sidecarID l] l' lab
  have labf: "\<forall>(n, s) \<in> set (forwarding l'). Labels s = [lab]"
    and labs: "\<forall>(n, s) \<in> set (synchronization l'). Labels s = [lab]"
    by simp_all
  from reconcileSessions_selection [OF run sel] obtain fp sp fc sc ids where
    sub: "set fc \<subseteq> snd ` set (forwarding l')" "set sc \<subseteq> snd ` set (synchronization l')"
    and p: "prefix (map fst t)
           ([Daemon_Connect, Forwarding_List sel, Synchronization_List sel] @
            applySequence sel fp sp fc sc ids)"
    and q: "r = Ok () \<longrightarrow>
            map fst t =
              [Daemon_Connect, Forwarding_List sel, Synchronization_List sel] @
              applySequence sel fp sp fc sc ids"
    by blast
  from sub labf labs have cf: "\<forall>s \<in> set fc. Labels s = [lab]"
    and cs: "\<forall>s \<in> set sc. Labels s = [lab]"
    by fastforce+
  have ex: "\<exists>fp sp fc sc ids.
         (\<forall>s \<in> set fc. Labels s = [lab]) \<and>
         (\<forall>s \<in> set sc. Labels s = [lab]) \<and>
         prefix (map fst t)
           ([Daemon_Connect, Forwarding_List sel, Synchronization_List sel] @
            applySequence sel fp sp fc sc ids) \<and>
         (r = Ok () \<longrightarrow>
            map fst t =
              [Daemon_Connect, Forwarding_List sel, Synchronization_List sel] @
              applySequence sel fp sp fc sc ids)"
    by (intro exI conjI) (rule cf, rule cs, rule p, rule q)
  note f = reconcileSessions_failure [OF run sel]
  from f have ne: "t \<noteq> []" by (rule conjunct1)
  from f have fl: "r \<noteq> Ok () \<longrightarrow> failed (last t) \<or> rejectedListing dm (last t)"
    by (elim conjE)
  from f have li: "Connect dm d = None \<longrightarrow>
         2 \<le> length t \<and> fst (t ! 1) = Forwarding_List sel \<and>
         (\<not> failed (t ! 1) \<and> \<not> rejectedListing dm (t ! 1) \<longrightarrow>
            3 \<le> length t \<and> fst (t ! 2) = Synchronization_List sel)"
    by (elim conjE)
  show ?thesis
    by (rule conjI [OF labf conjI [OF labs conjI [OF ex conjI [OF ne conjI [OF fl li]]]]])
qed

lemma listSessions_calls:
  assumes "listSessions h dm sidecarID d = (r, d', t)"
    and "sel = LabelSelector
              (sessionSidecarLabelKey h @ '' == '' @ chopSidecarIdentifier h sidecarID)"
  shows "prefix (map fst t)
       [Daemon_Connect, ListWithSelection Kind_Forwarding sel False,
        ListWithSelection Kind_Synchronization sel False] \<and>
     (r = Ok () \<longrightarrow> length t = 3) \<and>
     t \<noteq> [] \<and>
     (r \<noteq> Ok () \<longrightarrow> failed (last t)) \<and>
     (Connect dm d = None \<longrightarrow>
        2 \<le> length t \<and> fst (t ! 1) = ListWithSelection Kind_Forwarding sel False \<and>
        (\<not> failed (t ! 1) \<longrightarrow>
           length t = 3 \<and> fst (t ! 2) = ListWithSelection Kind_Synchronization sel False))"
  using assms
  by (auto simp: listSessions_def Let_def invoke_def failed_def
      split: option.splits prod.splits)

lemma pauseSessions_calls:
  assumes "pauseSessions h dm sidecarID d = (r, d', t)"
    and "sel = LabelSelector
              (sessionSidecarLabelKey h @ '' == '' @ chopSidecarIdentifier h sidecarID)"
  shows "prefix (map fst t)
       [Daemon_Connect, PauseWithSelection Kind_Forwarding sel,
        PauseWithSelection Kind_Synchronization sel] \<and>
     (r = Ok () \<longrightarrow> length t = 3) \<and>
     t \<noteq> [] \<and>
     (r \<noteq> Ok () \<longrightarrow> failed (last t)) \<and>
     (Connect dm d = None \<longrightarrow>
        2 \<le> length t \<and> fst (t ! 1) = PauseWithSelection Kind_Forwarding sel \<and>
        (\<not> failed (t ! 1) \<longrightarrow>
           length t = 3 \<and> fst (t ! 2) = PauseWithSelection Kind_Synchronization sel))"
  using assms
  by (auto simp: pauseSessions_def Let_def invoke_def failed_def
      split: option.splits prod.splits)

lemma resumeSessions_calls:
  assumes "resumeSessions h dm sidecarID d = (r, d', t)"
    and "sel = LabelSelector
              (sessionSidecarLabelKey h @ '' == '' @ chopSidecarIdentifier h sidecarID)"
  shows "prefix (map fst t)
       [Daemon_Connect, ResumeWithSelection Kind_Forwarding sel,
        ResumeWithSelection Kind_Synchronization sel] \<and>
     (r = Ok () \<longrightarrow> length t = 3) \<and>
     t \<noteq> [] \<and>
     (r \<noteq> Ok () \<longrightarrow> failed (last t)) \<and>
     (Connect dm d = None \<longrightarrow>
        2 \<le> length t \<and> fst (t ! 1) = ResumeWithSelection Kind_Forwarding sel \<and>
        (\<not> failed (t ! 1) \<longrightarrow>
           length t = 3 \<and> fst (t ! 2) = ResumeWithSelection Kind_Synchronization sel))"
  using assms
  by (auto simp: resumeSessions_def Let_def invoke_def failed_def
      split: option.splits prod.splits)

lemma terminateSessions_calls:
  assumes "terminateSessions h dm sidecarID d = (r, d', t)"
    and "sel = LabelSelector
              (sessionSidecarLabelKey h @ '' == '' @ chopSidecarIdentifier h sidecarID)"
  shows "prefix (map fst t)
       [Daemon_Connect, TerminateWithSelection Kind_Forwarding sel,
        TerminateWithSelection Kind_Synchronization sel] \<and>
     (r = Ok () \<longrightarrow> length t = 3) \<and>
     t \<noteq> [] \<and>
     (r \<noteq> Ok () \<longrightarrow> failed (last t)) \<and>
     (Connect dm d = None \<longrightarrow>
        2 \<le> length t \<and> fst (t ! 1) = TerminateWithSelection Kind_Forwarding sel \<and>
        (\<not> failed (t ! 1) \<longrightarrow>
           length t = 3 \<and> fst (t ! 2) = TerminateWithSelection Kind_Synchronization sel))"
  using assms
  by (auto simp: terminateSessions_def Let_def invoke_def failed_def
      split: option.splits prod.splits)

text \<open>
  Claim C10. For one sidecar identity, reconciliation leaves every stored specification
  of both kinds, and so every specification it sends for creation, with the ownership
  label as its only label; and the listings and resumptions of reconciliation and the
  commands of the list, pause, resume and terminate operations all select by the
  label-equality expression of that same label, built from the same truncation of the
  identity. A call of these operations carries no other label selector. None of the
  five operations is silent: each connects first; once connected it sends its first
  command with the ownership selector, and, unless that exchange fails (or, in
  reconciliation, the listing is rejected), its second command with the same selector;
  an operation that returns an error ends with the exchange that failed (in
  reconciliation, or with a rejected listing), and a reconciliation that returns without
  error has sent the whole sequence, resumptions included.
\<close>

theorem ownership_label_selector:
  "(reconcileSessions h dm l sidecarID d = (r, l', d', t) \<longrightarrow>
      (\<forall>(n, s) \<in> set (forwarding l'). Labels s = [ownershipLabel h sidecarID]) \<and>
      (\<forall>(n, s) \<in> set (synchronization l'). Labels s = [ownershipLabel h sidecarID]) \<and>
      (\<exists>fp sp fc sc ids.
         (\<forall>s \<in> set fc. Labels s = [ownershipLabel h sidecarID]) \<and>
         (\<forall>s \<in> set sc. Labels s = [ownershipLabel h sidecarID]) \<and>
         prefix (map fst t)
           ([Daemon_Connect,
             Forwarding_List (labelEquality (ownershipLabel h sidecarID)),
             Synchronization_List (labelEquality (ownershipLabel h sidecarID))] @
            applySequence (labelEquality (ownershipLabel h sidecarID)) fp sp fc sc ids) \<and>
         (r = Ok () \<longrightarrow>
            map fst t =
              [Daemon_Connect,
               Forwarding_List (labelEquality (ownershipLabel h sidecarID)),
               Synchronization_List (labelEquality (ownershipLabel h sidecarID))] @
              applySequence (labelEquality (ownershipLabel h sidecarID)) fp sp fc sc ids)) \<and>
      t \<noteq> [] \<and>
      (r \<noteq> Ok () \<longrightarrow> failed (last t) \<or> rejectedListing dm (last t)) \<and>
      (Connect dm d = None \<longrightarrow>
         2 \<le> length t \<and>
         fst (t ! 1) = Forwarding_List (labelEquality (ownershipLabel h sidecarID)) \<and>
         (\<not> failed (t ! 1) \<and> \<not> rejectedListing dm (t ! 1) \<longrightarrow>
            3 \<le> length t \<and>
            fst (t ! 2) =
              Synchronization_List (labelEquality (ownershipLabel h sidecarID))))) \<and>
   (listSessions h dm sidecarID d1 = (r1, d1', t1) \<longrightarrow>
      prefix (map fst t1)
        [Daemon_Connect,
         ListWithSelection Kind_Forwarding (labelEquality (ownershipLabel h sidecarID)) False,
         ListWithSelection Kind_Synchronization (labelEquality (ownershipLabel h sidecarID))
           False] \<and>
      (r1 = Ok () \<longrightarrow> length t1 = 3) \<and>
      t1 \<noteq> [] \<and>
      (r1 \<noteq> Ok () \<longrightarrow> failed (last t1)) \<and>
      (Connect dm d1 = None \<longrightarrow>
         2 \<le> length t1 \<and>
         fst (t1 ! 1) =
           ListWithSelection Kind_Forwarding (labelEquality (ownershipLabel h sidecarID))
             False \<and>
         (\<not> failed (t1 ! 1) \<longrightarrow>
            length t1 = 3 \<and>
            fst (t1 ! 2) =
              ListWithSelection Kind_Synchronization
                (labelEquality (ownershipLabel h sidecarID)) False))) \<and>
   (pauseSessions h dm sidecarID d2 = (r2, d2', t2) \<longrightarrow>
      prefix (map fst t2)
        [Daemon_Connect,
         PauseWithSelection Kind_Forwarding (labelEquality (ownershipLabel h sidecarID)),
         PauseWithSelection Kind_Synchronization (labelEquality (ownershipLabel h sidecarID))] \<and>
      (r2 = Ok () \<longrightarrow> length t2 = 3) \<and>
      t2 \<noteq> [] \<and>
      (r2 \<noteq> Ok () \<longrightarrow> failed (last t2)) \<and>
      (Connect dm d2 = None \<longrightarrow>
         2 \<le> length t2 \<and>
         fst (t2 ! 1) =
           PauseWithSelection Kind_Forwarding (labelEquality (ownershipLabel h sidecarID)) \<and>
         (\<not> failed (t2 ! 1) \<longrightarrow>
            length t2 = 3 \<and>
            fst (t2 ! 2) =
              PauseWithSelection Kind_Synchronization
                (labelEquality (ownershipLabel h sidecarID))))) \<and>
   (resumeSessions h dm sidecarID d3 = (r3, d3', t3) \<longrightarrow>
      prefix (map fst t3)
        [Daemon_Connect,
         ResumeWithSelection Kind_Forwarding (labelEquality (ownershipLabel h sidecarID)),
         ResumeWithSelection Kind_Synchronization (labelEquality (ownershipLabel h sidecarID))] \<and>
      (r3 = Ok () \<longrightarrow> length t3 = 3) \<and>
      t3 \<noteq> [] \<and>
      (r3 \<noteq> Ok () \<longrightarrow> failed (last t3)) \<and>
      (Connect dm d3 = None \<longrightarrow>
         2 \<le> length t3 \<and>
         fst (t3 ! 1) =
           ResumeWithSelection Kind_Forwarding (labelEquality (ownershipLabel h sidecarID)) \<and>
         (\<not> failed (t3 ! 1) \<longrightarrow>
            length t3 = 3 \<and>
            fst (t3 ! 2) =
              ResumeWithSelection Kind_Synchronization
                (labelEquality (ownershipLabel h sidecarID))))) \<and>
   (terminateSessions h dm sidecarID d4 = (r4, d4', t4) \<longrightarrow>
      prefix (map fst t4)
        [Daemon_Connect,
         TerminateWithSelection Kind_Forwarding (labelEquality (ownershipLabel h sidecarID)),
         TerminateWithSelection Kind_Synchronization
           (labelEquality (ownershipLabel h sidecarID))] \<and>
      (r4 = Ok () \<longrightarrow> length t4 = 3) \<and>
      t4 \<noteq> [] \<and>
      (r4 \<noteq> Ok () \<longrightarrow> failed (last t4)) \<and>
      (Connect dm d4 = None \<longrightarrow>
         2 \<le> length t4 \<and>
         fst (t4 ! 1) =
           TerminateWithSelection Kind_Forwarding
             (labelEquality (ownershipLabel h sidecarID)) \<and>
         (\<not> failed (t4 ! 1) \<longrightarrow>
            length t4 = 3 \<and>
            fst (t4 ! 2) =
              TerminateWithSelection Kind_Synchronization
                (labelEquality (ownershipLabel h sidecarID)))))"
  unfolding ownershipLabel_def labelEquality_def fst_conv snd_conv
  by (rule conjI [OF impI [OF reconcileSessions_ownership [OF _ refl refl]]
        conjI [OF impI [OF listSessions_calls [OF _ refl]]
        conjI [OF impI [OF pauseSessions_calls [OF _ refl]]
        conjI [OF impI [OF resumeSessions_calls [OF _ refl]]
          impI [OF terminateSessions_calls [OF _ refl]]]]]])

lemma example_list:
  "listSessions exampleHelpers exampleDaemon ''0123456789'' 0 =
     (Ok (), 2,
      [(Daemon_Connect, Succeeded),
       (ListWithSelection Kind_Forwarding (LabelSelector ''sidecar == 0123'') False, Succeeded),
       (ListWithSelection Kind_Synchronization (LabelSelector ''sidecar == 0123'') False,
        Succeeded)])"
  by (simp add: listSessions_def invoke_def exampleHelpers_def exampleDaemon_def Let_def
      eval_nat_numeral)

lemma example_pause:
  "pauseSessions exampleHelpers exampleDaemon ''0123456789'' 0 =
     (Ok (), 2,
      [(Daemon_Connect, Succeeded),
       (PauseWithSelection Kind_Forwarding (LabelSelector ''sidecar == 0123''), Succeeded),
       (PauseWithSelection Kind_Synchronization (LabelSelector ''sidecar == 0123''),
        Succeeded)])"
  by (simp add: pauseSessions_def invoke_def exampleHelpers_def exampleDaemon_def Let_def
      eval_nat_numeral)

lemma example_resume:
  "resumeSessions exampleHelpers exampleDaemon ''0123456789'' 0 =
     (Ok (), 2,
      [(Daemon_Connect, Succeeded),
       (ResumeWithSelection Kind_Forwarding (LabelSelector ''sidecar == 0123''), Succeeded),
       (ResumeWithSelection Kind_Synchronization (LabelSelector ''sidecar == 0123''),
        Succeeded)])"
  by (simp add: resumeSessions_def invoke_def exampleHelpers_def exampleDaemon_def Let_def
      eval_nat_numeral)

lemma example_terminate:
  "terminateSessions exampleHelpers exampleDaemon ''0123456789'' 0 =
     (Ok (), 2,
      [(Daemon_Connect, Succeeded),
       (TerminateWithSelection Kind_Forwarding (LabelSelector ''sidecar == 0123''), Succeeded),
       (TerminateWithSelection Kind_Synchronization (LabelSelector ''sidecar == 0123''),
        Succeeded)])"
  by (simp add: terminateSessions_def invoke_def exampleHelpers_def exampleDaemon_def Let_def
      eval_nat_numeral)

lemma example_label:
  "ownershipLabel exampleHelpers ''0123456789'' = (''sidecar'', ''0123'')"
  "labelEquality (ownershipLabel exampleHelpers ''0123456789'') =
     LabelSelector ''sidecar == 0123''"
  "Connect exampleDaemon 0 = None"
  by (simp_all add: ownershipLabel_def labelEquality_def exampleHelpers_def exampleDaemon_def)

theorem ownership_label_selector_witness:
  "ownershipLabel exampleHelpers ''0123456789'' = (''sidecar'', ''0123'') \<and>
   labelEquality (ownershipLabel exampleHelpers ''0123456789'') =
     LabelSelector ''sidecar == 0123'' \<and>
   (\<exists>l' d' t.
      reconcileSessions exampleHelpers exampleDaemon exampleLiaison ''0123456789'' 0 =
        (Ok (), l', d', t) \<and>
      map (\<lambda>(n, s). Labels s) (forwarding l') = [[(''sidecar'', ''0123'')]] \<and>
      map (\<lambda>(n, s). Labels s) (synchronization l') = [[(''sidecar'', ''0123'')]] \<and>
      fst (t ! 1) = Forwarding_List (LabelSelector ''sidecar == 0123'') \<and>
      fst (t ! 2) = Synchronization_List (LabelSelector ''sidecar == 0123'')) \<and>
   (\<exists>d' t.
      listSessions exampleHelpers exampleDaemon ''0123456789'' 0 = (Ok (), d', t) \<and>
      length t = 3 \<and>
      fst (t ! 1) = ListWithSelection Kind_Forwarding (LabelSelector ''sidecar == 0123'') False \<and>
      fst (t ! 2) =
        ListWithSelection Kind_Synchronization (LabelSelector ''sidecar == 0123'') False) \<and>
   (\<exists>d' t.
      pauseSessions exampleHelpers exampleDaemon ''0123456789'' 0 = (Ok (), d', t) \<and>
      length t = 3 \<and>
      fst (t ! 1) = PauseWithSelection Kind_Forwarding (LabelSelector ''sidecar == 0123'') \<and>
      fst (t ! 2) = PauseWithSelection Kind_Synchronization (LabelSelector ''sidecar == 0123'')) \<and>
   (\<exists>d' t.
      resumeSessions exampleHelpers exampleDaemon ''0123456789'' 0 = (Ok (), d', t) \<and>
      length t = 3 \<and>
      fst (t ! 1) = ResumeWithSelection Kind_Forwarding (LabelSelector ''sidecar == 0123'') \<and>
      fst (t ! 2) =
        ResumeWithSelection Kind_Synchronization (LabelSelector ''sidecar == 0123'')) \<and>
   (\<exists>d' t.
      terminateSessions exampleHelpers exampleDaemon ''0123456789'' 0 = (Ok (), d', t) \<and>
      length t = 3 \<and>
      fst (t ! 1) =
        TerminateWithSelection Kind_Forwarding (LabelSelector ''sidecar == 0123'') \<and>
      fst (t ! 2) =
        TerminateWithSelection Kind_Synchronization (LabelSelector ''sidecar == 0123''))"
proof -
  note T = ownership_label_selector [where h = exampleHelpers and dm = exampleDaemon
      and sidecarID = "''0123456789''"]
  have ok: "\<not> failed (c, Succeeded)" "\<not> failed (c, ForwardingStates fs)"
    "\<not> rejectedListing exampleDaemon (c, ForwardingStates fs)" for c fs
    by (simp_all add: failed_def rejectedListing_def exampleDaemon_def)
  from T [THEN conjunct1, THEN mp, OF example_run] example_run
  have 1: "\<exists>l' d' t.
      reconcileSessions exampleHelpers exampleDaemon exampleLiaison ''0123456789'' 0 =
        (Ok (), l', d', t) \<and>
      map (\<lambda>(n, s). Labels s) (forwarding l') = [[(''sidecar'', ''0123'')]] \<and>
      map (\<lambda>(n, s). Labels s) (synchronization l') = [[(''sidecar'', ''0123'')]] \<and>
      fst (t ! 1) = Forwarding_List (LabelSelector ''sidecar == 0123'') \<and>
      fst (t ! 2) = Synchronization_List (LabelSelector ''sidecar == 0123'')"
    by (simp add: example_label ok)
  from T [THEN conjunct2, THEN conjunct1, THEN mp, OF example_list] example_list
  have 2: "\<exists>d' t.
      listSessions exampleHelpers exampleDaemon ''0123456789'' 0 = (Ok (), d', t) \<and>
      length t = 3 \<and>
      fst (t ! 1) = ListWithSelection Kind_Forwarding (LabelSelector ''sidecar == 0123'') False \<and>
      fst (t ! 2) =
        ListWithSelection Kind_Synchronization (LabelSelector ''sidecar == 0123'') False"
    by (simp add: example_label ok)
  from T [THEN conjunct2, THEN conjunct2, THEN conjunct1, THEN mp, OF example_pause]
    example_pause
  have 3: "\<exists>d' t.
      pauseSessions exampleHelpers exampleDaemon ''0123456789'' 0 = (Ok (), d', t) \<and>
      length t = 3 \<and>
      fst (t ! 1) = PauseWithSelection Kind_Forwarding (LabelSelector ''sidecar == 0123'') \<and>
      fst (t ! 2) = PauseWithSelection Kind_Synchronization (LabelSelector ''sidecar == 0123'')"
    by (simp add: example_label ok)
  from T [THEN conjunct2, THEN conjunct2, THEN conjunct2, THEN conjunct1, THEN mp,
      OF example_resume] example_resume
  have 4: "\<exists>d' t.
      resumeSessions exampleHelpers exampleDaemon ''0123456789'' 0 = (Ok (), d', t) \<and>
      length t = 3 \<and>
      fst (t ! 1) = ResumeWithSelection Kind_Forwarding (LabelSelector ''sidecar == 0123'') \<and>
      fst (t ! 2) =
        ResumeWithSelection Kind_Synchronization (LabelSelector ''sidecar == 0123'')"
    by (simp add: example_label ok)
  from T [THEN conjunct2, THEN conjunct2, THEN conjunct2, THEN conjunct2, THEN mp,
      OF example_terminate] example_terminate
  have 5: "\<exists>d' t.
      terminateSessions exampleHelpers exampleDaemon ''0123456789'' 0 = (Ok (), d', t) \<and>
      length t = 3 \<and>
      fst (t ! 1) =
        TerminateWithSelection Kind_Forwarding (LabelSelector ''sidecar == 0123'') \<and>
      fst (t ! 2) =
        TerminateWithSelection Kind_Synchronization (LabelSelector ''sidecar == 0123'')"
    by (simp add: example_label ok)
  show ?thesis
    by (rule conjI [OF example_label(1) conjI [OF example_label(2)
          conjI [OF 1 conjI [OF 2 conjI [OF 3 conjI [OF 4 5]]]]]])
qed

section \<open>The example build\<close>

lemma example_decode: "decodeSessions exampleEnvironment exampleProject = Ok exampleSessions"
  by (simp add: decodeSessions_def exampleEnvironment_def exampleProject_def)

lemma example_forwardingDefaults:
  "forwardingDefaults exampleEnvironment (Forwarding exampleSessions) =
     Ok (([''socketOverwriteMode'' \<mapsto> ''global''], [''socketOwner'' \<mapsto> ''role''], Map.empty),
         [(''web'', exampleWebSession)])"
  by (simp add: forwardingDefaults_def exampleEnvironment_def exampleSessions_def
      exampleForwardingDefaults_def AList.delete_eq)

lemma example_synchronizationDefaults:
  "synchronizationDefaults exampleEnvironment (Synchronization exampleSessions) =
     Ok ((Map.empty, Map.empty, Map.empty), [(''data'', exampleDataSession)])"
  by (simp add: synchronizationDefaults_def exampleSessions_def)

lemma example_web:
  "processForwardingSession exampleEnvironment
     ([''socketOverwriteMode'' \<mapsto> ''global''], [''socketOwner'' \<mapsto> ''role''], Map.empty)
     ''web'' exampleWebSession = Ok (exampleWeb, ''backend'')"
  by (simp add: processForwardingSession_def exampleEnvironment_def exampleWebSession_def
      exampleWeb_def)

lemma example_data:
  "processSynchronizationSession exampleEnvironment exampleProject ''linux''
     (Map.empty, Map.empty, Map.empty) ''data'' exampleDataSession =
   Ok (exampleData, [''cache''])"
  by (simp add: processSynchronizationSession_def parseAlpha_def parseBeta_def
      exampleEnvironment_def exampleProject_def exampleDataSession_def exampleData_def Let_def)

lemma example_validate: "validateDependencies exampleProject [''backend''] [''cache''] = Ok ()"
  by (simp add: validateDependencies_def exampleProject_def)

lemma example_build:
  "buildSpecifications exampleEnvironment exampleProject ''linux'' =
     Ok ([(''web'', exampleWeb)], [''backend''], [(''data'', exampleData)], [''cache''])"
  by (simp add: buildSpecifications_def example_decode example_forwardingDefaults
      example_synchronizationDefaults example_web example_data example_validate)

lemma example_processProject:
  "processProject exampleEnvironment emptyLiaison (Some exampleProject) =
     (Ok (),
      Some (exampleProject\<lparr>Services :=
              map (addSidecarDependency exampleEnvironment [''cache''])
                (Services exampleProject) @
              [sidecarService exampleEnvironment ''linux'' [''backend''] [''cache'']]\<rparr>),
      \<lparr>forwarding = [(''web'', exampleWeb)], synchronization = [(''data'', exampleData)]\<rparr>,
      [(Docker_Info, Metadata ''linux'')])"
proof -
  have "Info exampleEnvironment = Inr ''linux''"
    "sidecarServiceName exampleEnvironment = ''mutagen''"
    by (simp_all add: exampleEnvironment_def)
  moreover have "\<not> (\<exists>service \<in> set (Services exampleProject). ServiceName service = ''mutagen'')"
    by (simp add: exampleProject_def)
  ultimately show ?thesis
    by (simp add: processProject_def example_build emptyLiaison_def)
qed


lemma example_parsersAgree: "parsersAgree exampleEnvironment"
  by (auto simp: parsersAgree_def exampleEnvironment_def split: if_splits)

section \<open>A nil project\<close>

text \<open>
  Claim C9. With a nil project \<^verbatim>\<open>processProject\<close> returns nil, makes no call (so no
  metadata query), returns no project (so no sidecar is injected) and leaves the
  liaison, and with it both specification maps, as they were.
\<close>

theorem processProject_nil:
  "processProject env l None = (Ok (), None, l, [])"
  by (simp add: processProject_def)

section \<open>The sidecar service is appended once\<close>

lemma addSidecarDependency_name [simp]:
  "ServiceName (addSidecarDependency env volumeDependencies service) = ServiceName service"
  by (simp add: addSidecarDependency_def)

lemma processProject_success:
  assumes "processProject env l (Some p) = (Ok (), p', l', t)"
  shows "\<not> (\<exists>service \<in> set (Services p). ServiceName service = sidecarServiceName env) \<and>
     (\<exists>osType forwardingSpecifications networkDependencies synchronizationSpecifications
         volumeDependencies.
        Info env = Inr osType \<and>
        buildSpecifications env p osType =
          Ok (forwardingSpecifications, networkDependencies, synchronizationSpecifications,
              volumeDependencies) \<and>
        p' = Some (p\<lparr>Services :=
                      map (addSidecarDependency env volumeDependencies) (Services p) @
                      [sidecarService env osType networkDependencies volumeDependencies]\<rparr>) \<and>
        l' = l\<lparr>forwarding := forwardingSpecifications,
               synchronization := synchronizationSpecifications\<rparr> \<and>
        t = [(Docker_Info, Metadata osType)])"
  using assms
  by (auto simp: processProject_def split: if_splits sum.splits result.splits prod.splits)

lemma processProject_failure:
  assumes "processProject env l project = (r, p', l', t)" and "r \<noteq> Ok ()"
  shows "p' = project \<and> l' = l"
  using assms
  by (auto simp: processProject_def
      split: option.splits if_splits sum.splits result.splits prod.splits)





section \<open>Errors and panics\<close>

lemma returns_simps [simp]:
  "returns (Ok x)" "returns (Err e)" "\<not> returns (Panic s)"
  by (simp_all add: returns_def)

lemma processForwardingSession_panic:
  "processForwardingSession env defaults name session = Panic s \<Longrightarrow>
     s = ''forwarding URL failed to reparse'' \<and>
     (\<exists>u e. urlParse env (fwdSource session) Kind_Forwarding True = Inr u \<and>
            Protocol u = Protocol_Local \<and> forwardingurlParse env (Path u) = Inl e)"
  by (auto simp: processForwardingSession_def
      split: prod.splits option.splits sum.splits if_splits)

lemma forwardingLoop_panic:
  "forwardingLoop env defaults entries specs nets = Panic s \<Longrightarrow>
     s = ''forwarding URL failed to reparse'' \<and>
     (\<exists>u e raw. urlParse env raw Kind_Forwarding True = Inr u \<and>
            Protocol u = Protocol_Local \<and> forwardingurlParse env (Path u) = Inl e)"
proof (induction entries arbitrary: specs nets)
  case Nil
  then show ?case by simp
next
  case (Cons a entries)
  obtain name session where a: "a = (name, session)" by (cases a) auto
  show ?case
  proof (cases "processForwardingSession env defaults name session")
    case (Ok x)
    with Cons a show ?thesis by (auto split: prod.splits)
  next
    case (Err e)
    with Cons.prems a show ?thesis by simp
  next
    case (Panic s')
    with Cons.prems a processForwardingSession_panic [OF Panic] show ?thesis by auto
  qed
qed

lemma parseAlpha_not_panic [simp]: "parseAlpha env p osType alpha v \<noteq> Panic s"
  by (auto simp: parseAlpha_def split: sum.splits prod.splits)

lemma parseBeta_not_panic [simp]: "parseBeta env p osType beta v \<noteq> Panic s"
  by (auto simp: parseBeta_def split: sum.splits prod.splits)

lemma processSynchronizationSession_returns:
  "returns (processSynchronizationSession env p osType defaults name session)"
  by (auto simp: processSynchronizationSession_def Let_def
      split: prod.splits option.splits result.splits)

lemma synchronizationLoop_returns:
  "returns (synchronizationLoop env p osType defaults entries specs vols)"
proof (induction entries arbitrary: specs vols)
  case Nil
  show ?case by simp
next
  case (Cons a entries)
  obtain name session where a: "a = (name, session)" by (cases a) auto
  show ?case
    using processSynchronizationSession_returns [of env p osType defaults name session] Cons a
    by (auto split: result.splits prod.splits)
qed

lemma buildSpecifications_panic:
  assumes "buildSpecifications env p osType = Panic s"
  shows "s = ''forwarding URL failed to reparse'' \<and> \<not> parsersAgree env"
proof -
  have 1: "decodeSessions env p \<noteq> Panic s"
    by (auto simp: decodeSessions_def split: option.splits sum.splits)
  have 2: "forwardingDefaults env fs \<noteq> Panic s" for fs
    by (auto simp: forwardingDefaults_def split: option.splits)
  have 3: "synchronizationDefaults env ss \<noteq> Panic s" for ss
    by (auto simp: synchronizationDefaults_def split: option.splits)
  have 4: "synchronizationLoop env p osType d es [] [] \<noteq> Panic s" for d es
    using synchronizationLoop_returns [of env p osType d es "[]" "[]"] by auto
  have 5: "validateDependencies p ns vs \<noteq> Panic s" for ns vs
    by (auto simp: validateDependencies_def split: option.splits)
  from assms 1 2 3 4 5 obtain d es where "forwardingLoop env d es [] [] = Panic s"
    unfolding buildSpecifications_def
    by (auto split: result.splits prod.splits)
  from forwardingLoop_panic [OF this] show ?thesis
    by (force simp: parsersAgree_def)
qed

lemma processProject_panic:
  assumes "fst (processProject env l project) = Panic s"
  shows "s = ''forwarding URL failed to reparse'' \<and> \<not> parsersAgree env"
proof -
  from assms obtain p osType where "buildSpecifications env p osType = Panic s"
    by (auto simp: processProject_def
        split: option.splits if_splits sum.splits result.splits prod.splits)
  then show ?thesis by (rule buildSpecifications_panic)
qed

lemma applyReconciliation_returns:
  "returns (fst (applyReconciliation dm sel fp sp fc sc d))"
  by (auto simp: applyReconciliation_def split: prod.splits option.splits sum.splits)

lemma reconcileSessions_returns: "returns (fst (reconcileSessions h dm l sidecarID d))"
proof -
  obtain r l' d' t where run: "reconcileSessions h dm l sidecarID d = (r, l', d', t)"
    using prod_cases4 by blast
  from run refl have "returns r"
  proof (cases rule: stopped_or_applied)
    case stopped
    then show ?thesis by auto
  next
    case (applied fs ss t')
    from applyReconciliation_returns [of dm _ _ _ _ _ d] applied(3) show ?thesis
      by (metis fst_conv)
  qed
  with run show ?thesis by simp
qed

lemma wrappers_return:
  "returns (fst (listSessions h dm sidecarID d))"
  "returns (fst (pauseSessions h dm sidecarID d))"
  "returns (fst (resumeSessions h dm sidecarID d))"
  "returns (fst (terminateSessions h dm sidecarID d))"
  by (auto simp: listSessions_def pauseSessions_def resumeSessions_def terminateSessions_def
      Let_def invoke_def split: option.splits prod.splits)

text \<open>
  Claim C6. No core operation panics: each ends with nil or with an error. This holds
  for reconciliation and for the list, pause, resume and terminate operations with every
  daemon, and for the build with every project, under the contract of the URL library
  that the source relies on when it calls its second parse of a forwarding source a
  reparse: the URL parser accepts a local forwarding URL only when the forwarding
  endpoint parser accepts its path. The one \<^verbatim>\<open>panic\<close> of the source, on a failed
  reparse, is then never reached.
\<close>

theorem core_operations_return:
  "(parsersAgree env \<longrightarrow> returns (fst (processProject env l project))) \<and>
   returns (fst (reconcileSessions h dm l' sidecarID d)) \<and>
   returns (fst (listSessions h dm sidecarID d)) \<and>
   returns (fst (pauseSessions h dm sidecarID d)) \<and>
   returns (fst (resumeSessions h dm sidecarID d)) \<and>
   returns (fst (terminateSessions h dm sidecarID d))"
proof -
  have 1: "\<forall>s. fst (processProject env l project) = Panic s \<longrightarrow>
        s = ''forwarding URL failed to reparse'' \<and> \<not> parsersAgree env"
    using processProject_panic by blast
  then have 2: "parsersAgree env \<longrightarrow> returns (fst (processProject env l project))"
    by (cases "fst (processProject env l project)") auto
  from 2 reconcileSessions_returns [of h dm l' sidecarID d]
    wrappers_return [of h dm sidecarID d]
  show ?thesis by blast
qed

theorem core_operations_return_witness:
  "parsersAgree exampleEnvironment \<and>
   processProject exampleEnvironment emptyLiaison (Some exampleProject) =
     (Ok (),
      Some (exampleProject\<lparr>Services :=
              map (addSidecarDependency exampleEnvironment [''cache''])
                (Services exampleProject) @
              [sidecarService exampleEnvironment ''linux'' [''backend''] [''cache'']]\<rparr>),
      \<lparr>forwarding = [(''web'', exampleWeb)], synchronization = [(''data'', exampleData)]\<rparr>,
      [(Docker_Info, Metadata ''linux'')]) \<and>
   returns (fst (processProject exampleEnvironment emptyLiaison (Some exampleProject))) \<and>
   returns (fst (reconcileSessions exampleHelpers exampleDaemon exampleLiaison
                   ''0123456789'' 0))"
  using core_operations_return [of exampleEnvironment emptyLiaison
      "Some exampleProject" exampleHelpers exampleDaemon exampleLiaison "''0123456789''" 0]
    example_parsersAgree example_processProject
  by simp

section \<open>Forwarding endpoints\<close>

lemma delete_absent: "map_of al k = None \<Longrightarrow> AList.delete k al = al"
  by (induction al) (auto simp: AList.delete_eq split: if_splits)

lemma forwardingDefaults_Ok:
  "forwardingDefaults env fs = Ok (d, entries) \<Longrightarrow>
     entries = AList.delete ''defaults'' fs \<and>
     d = (case map_of fs ''defaults'' of
            None \<Rightarrow> (Map.empty, Map.empty, Map.empty)
          | Some defaults \<Rightarrow>
              (fwdConfiguration defaults, fwdConfigurationSource defaults,
               fwdConfigurationDestination defaults))"
  by (auto simp: forwardingDefaults_def delete_absent split: option.splits if_splits)

lemma synchronizationDefaults_Ok:
  "synchronizationDefaults env ss = Ok (d, entries) \<Longrightarrow>
     entries = AList.delete ''defaults'' ss \<and>
     d = (case map_of ss ''defaults'' of
            None \<Rightarrow> (Map.empty, Map.empty, Map.empty)
          | Some defaults \<Rightarrow>
              (syncConfiguration defaults, syncConfigurationAlpha defaults,
               syncConfigurationBeta defaults))"
  by (auto simp: synchronizationDefaults_def delete_absent split: option.splits if_splits)

lemma processForwardingSession_Ok:
  "processForwardingSession env (dc, ds, dd) name session = Ok (c, network) \<Longrightarrow>
     EnsureNameValid env name = None \<and>
     sourceIsLocalTCP env (fwdSource session) \<and>
     isNetworkURL env (fwdDestination session) \<and>
     (\<exists>u. parseNetworkURL env (fwdDestination session) = Inr (u, network)) \<and>
     SpecName c = name \<and> Labels c = [] \<and>
     Configuration c = MergeConfigurations dc (fwdConfiguration session) \<and>
     ConfigurationSource c = MergeConfigurations ds (fwdConfigurationSource session) \<and>
     ConfigurationDestination c =
       MergeConfigurations dd (fwdConfigurationDestination session)"
  by (auto simp: processForwardingSession_def sourceIsLocalTCP_def
      split: option.splits sum.splits prod.splits if_splits)

lemma processForwardingSession_errors:
  assumes "EnsureNameValid env name = None"
  shows "(isNetworkURL env (fwdSource session) \<longrightarrow>
            processForwardingSession env defaults name session =
              Err (Errorf ''network URL (%s) not allowed as forwarding source''
                     [fwdSource session])) \<and>
         (\<forall>u. \<not> isNetworkURL env (fwdSource session) \<and>
              urlParse env (fwdSource session) Kind_Forwarding True = Inr u \<and>
              Protocol u \<noteq> Protocol_Local \<longrightarrow>
            processForwardingSession env defaults name session =
              Err (Errorf ''only local URLs allowed as forwarding sources'' [])) \<and>
         (\<forall>u protocol address.
              \<not> isNetworkURL env (fwdSource session) \<and>
              urlParse env (fwdSource session) Kind_Forwarding True = Inr u \<and>
              Protocol u = Protocol_Local \<and>
              forwardingurlParse env (Path u) = Inr (protocol, address) \<and>
              \<not> isTCPForwardingProtocol env protocol \<longrightarrow>
            processForwardingSession env defaults name session =
              Err (Errorf ''non-TCP-based forwarding endpoint (%s) unsupported'' [Path u])) \<and>
         (sourceIsLocalTCP env (fwdSource session) \<and>
          \<not> isNetworkURL env (fwdDestination session) \<longrightarrow>
            processForwardingSession env defaults name session =
              Err (Errorf ''forwarding destination (%s) should be a network URL''
                     [fwdDestination session]))"
  using assms
  by (auto simp: processForwardingSession_def sourceIsLocalTCP_def
      split: option.splits sum.splits prod.splits if_splits)

lemma forwardingLoop_Ok_all:
  "forwardingLoop env d entries specs nets = Ok x \<Longrightarrow>
     \<forall>(name, session) \<in> set entries.
       \<exists>c network. processForwardingSession env d name session = Ok (c, network)"
proof (induction entries arbitrary: specs nets)
  case Nil
  show ?case by simp
next
  case (Cons a entries)
  obtain name session where a: "a = (name, session)" by (cases a) auto
  from Cons.prems a obtain c network where
    ok: "processForwardingSession env d name session = Ok (c, network)"
    and rest: "forwardingLoop env d entries (AList.update name c specs)
                 (List.insert network nets) = Ok x"
    by (auto split: result.splits prod.splits)
  from Cons.IH [OF rest] ok a show ?case by auto
qed

lemma forwardingLoop_stops:
  assumes "\<forall>(n, s) \<in> set pre. \<exists>r. processForwardingSession env d n s = Ok r"
    and "processForwardingSession env d name session = Err e"
  shows "forwardingLoop env d (pre @ (name, session) # post) specs nets = Err e"
  using assms
proof (induction pre arbitrary: specs nets)
  case Nil
  then show ?case by simp
next
  case (Cons a pre)
  obtain n s where a: "a = (n, s)" by (cases a) auto
  from Cons.prems(1) a obtain c network where
    "processForwardingSession env d n s = Ok (c, network)"
    by auto
  with Cons a show ?case by simp
qed

lemma processSynchronizationSession_Ok:
  "processSynchronizationSession env p osType (dc, da, db) name session = Ok (c, volumes) \<Longrightarrow>
     EnsureNameValid env name = None \<and>
     isVolumeURL env (syncAlpha session) \<noteq> isVolumeURL env (syncBeta session) \<and>
     SpecName c = name \<and> Labels c = [] \<and>
     Configuration c = MergeConfigurations dc (syncConfiguration session) \<and>
     ConfigurationAlpha c = MergeConfigurations da (syncConfigurationAlpha session) \<and>
     ConfigurationBeta c = MergeConfigurations db (syncConfigurationBeta session)"
  by (auto simp: processSynchronizationSession_def Let_def
      split: option.splits result.splits prod.splits if_splits)

lemma processSynchronizationSession_errors:
  assumes "EnsureNameValid env name = None"
  shows "(\<not> isVolumeURL env (syncAlpha session) \<and> \<not> isVolumeURL env (syncBeta session) \<longrightarrow>
            processSynchronizationSession env p osType defaults name session =
              Err (Errorf
                ''neither alpha nor beta references a volume in synchronization session (%s)''
                [name])) \<and>
         (isVolumeURL env (syncAlpha session) \<and> isVolumeURL env (syncBeta session) \<longrightarrow>
            processSynchronizationSession env p osType defaults name session =
              Err (Errorf
                ''both alpha and beta reference volumes in synchronization session (%s)''
                [name]))"
  using assms
  by (auto simp: processSynchronizationSession_def Let_def split: prod.splits)

lemma synchronizationLoop_Ok_all:
  "synchronizationLoop env p osType d entries specs vols = Ok x \<Longrightarrow>
     \<forall>(name, session) \<in> set entries.
       \<exists>c volumes. processSynchronizationSession env p osType d name session = Ok (c, volumes)"
proof (induction entries arbitrary: specs vols)
  case Nil
  show ?case by simp
next
  case (Cons a entries)
  obtain name session where a: "a = (name, session)" by (cases a) auto
  from Cons.prems a obtain c volumes where
    ok: "processSynchronizationSession env p osType d name session = Ok (c, volumes)"
    and rest: "synchronizationLoop env p osType d entries (AList.update name c specs)
                 (fold List.insert volumes vols) = Ok x"
    by (auto split: result.splits prod.splits)
  from Cons.IH [OF rest] ok a show ?case by auto
qed

lemma synchronizationLoop_stops:
  assumes "\<forall>(n, s) \<in> set pre. \<exists>r. processSynchronizationSession env p osType d n s = Ok r"
    and "processSynchronizationSession env p osType d name session = Err e"
  shows "synchronizationLoop env p osType d (pre @ (name, session) # post) specs vols = Err e"
  using assms
proof (induction pre arbitrary: specs vols)
  case Nil
  then show ?case by simp
next
  case (Cons a pre)
  obtain n s where a: "a = (n, s)" by (cases a) auto
  from Cons.prems(1) a obtain c volumes where
    "processSynchronizationSession env p osType d n s = Ok (c, volumes)"
    by auto
  with Cons a show ?case by simp
qed

lemma buildSpecifications_Ok:
  assumes "buildSpecifications env p osType = Ok (fspecs, nets, sspecs, vols)"
  shows "\<exists>decoded df ds.
     decodeSessions env p = Ok decoded \<and>
     forwardingDefaults env (Forwarding decoded) = Ok (df, forwardingSessionsOf decoded) \<and>
     synchronizationDefaults env (Synchronization decoded) =
       Ok (ds, synchronizationSessionsOf decoded) \<and>
     forwardingLoop env df (forwardingSessionsOf decoded) [] [] = Ok (fspecs, nets) \<and>
     synchronizationLoop env p osType ds (synchronizationSessionsOf decoded) [] [] =
       Ok (sspecs, vols) \<and>
     validateDependencies p nets vols = Ok ()"
proof -
  from assms obtain decoded df fe ds se where
    1: "decodeSessions env p = Ok decoded"
    and 2: "forwardingDefaults env (Forwarding decoded) = Ok (df, fe)"
    and 3: "synchronizationDefaults env (Synchronization decoded) = Ok (ds, se)"
    and 4: "forwardingLoop env df fe [] [] = Ok (fspecs, nets)"
    and 5: "synchronizationLoop env p osType ds se [] [] = Ok (sspecs, vols)"
    and 6: "validateDependencies p nets vols = Ok ()"
    unfolding buildSpecifications_def
    by (auto split: result.splits prod.splits)
  from forwardingDefaults_Ok [OF 2] synchronizationDefaults_Ok [OF 3]
  have "fe = forwardingSessionsOf decoded" "se = synchronizationSessionsOf decoded"
    by (simp_all add: forwardingSessionsOf_def synchronizationSessionsOf_def)
  with 1 2 3 4 5 6 show ?thesis by blast
qed

lemma processProject_forwarding_error:
  assumes "\<not> (\<exists>service \<in> set (Services p). ServiceName service = sidecarServiceName env)"
    and "Info env = Inr osType"
    and "decodeSessions env p = Ok decoded"
    and "forwardingDefaults env (Forwarding decoded) = Ok (df, pre @ (name, session) # post)"
    and "synchronizationDefaults env (Synchronization decoded) = Ok sd"
    and "\<forall>(n, s) \<in> set pre. \<exists>r. processForwardingSession env df n s = Ok r"
    and "processForwardingSession env df name session = Err e"
  shows "processProject env l (Some p) = (Err e, Some p, l, [(Docker_Info, Metadata osType)])"
proof -
  from forwardingLoop_stops [OF assms(6,7)]
  have "forwardingLoop env df (pre @ (name, session) # post) [] [] = Err e" .
  with assms(3,4,5) have "buildSpecifications env p osType = Err e"
    by (cases sd) (simp add: buildSpecifications_def)
  with assms(1,2) show ?thesis
    by (simp add: processProject_def)
qed

lemma processProject_synchronization_error:
  assumes "\<not> (\<exists>service \<in> set (Services p). ServiceName service = sidecarServiceName env)"
    and "Info env = Inr osType"
    and "decodeSessions env p = Ok decoded"
    and "forwardingDefaults env (Forwarding decoded) = Ok (df, fe)"
    and "synchronizationDefaults env (Synchronization decoded) =
           Ok (ds, pre @ (name, session) # post)"
    and "forwardingLoop env df fe [] [] = Ok fr"
    and "\<forall>(n, s) \<in> set pre. \<exists>r. processSynchronizationSession env p osType ds n s = Ok r"
    and "processSynchronizationSession env p osType ds name session = Err e"
  shows "processProject env l (Some p) = (Err e, Some p, l, [(Docker_Info, Metadata osType)])"
proof -
  from synchronizationLoop_stops [OF assms(7,8)]
  have "synchronizationLoop env p osType ds (pre @ (name, session) # post) [] [] = Err e" .
  with assms(3,4,5,6) have "buildSpecifications env p osType = Err e"
    by (cases fr) (simp add: buildSpecifications_def)
  with assms(1,2) show ?thesis
    by (simp add: processProject_def)
qed

lemma processProject_Ok_sessions:
  assumes run: "processProject env l (Some p) = (Ok (), p', l', t)"
    and dec: "decodeSessions env p = Ok decoded"
  shows "\<exists>osType df ds nets vols.
     forwardingDefaults env (Forwarding decoded) = Ok (df, forwardingSessionsOf decoded) \<and>
     synchronizationDefaults env (Synchronization decoded) =
       Ok (ds, synchronizationSessionsOf decoded) \<and>
     forwardingLoop env df (forwardingSessionsOf decoded) [] [] = Ok (forwarding l', nets) \<and>
     synchronizationLoop env p osType ds (synchronizationSessionsOf decoded) [] [] =
       Ok (synchronization l', vols)"
proof -
  from processProject_success [OF run] obtain osType fs nets ss vols where
    b: "buildSpecifications env p osType = Ok (fs, nets, ss, vols)"
    and l': "l' = l\<lparr>forwarding := fs, synchronization := ss\<rparr>"
    by blast
  from buildSpecifications_Ok [OF b] dec l' show ?thesis
    by fastforce
qed

lemma example_sessionsOf:
  "forwardingSessionsOf exampleSessions = [(''web'', exampleWebSession)]"
  "synchronizationSessionsOf exampleSessions = [(''data'', exampleDataSession)]"
  by (simp_all add: forwardingSessionsOf_def synchronizationSessionsOf_def exampleSessions_def
      AList.delete_eq)

lemma example_accessors:
  "EnsureNameValid exampleEnvironment ''web'' = None"
  "EnsureNameValid exampleEnvironment ''data'' = None"
  "isNetworkURL exampleEnvironment ''network://backend:tcp:web:80''"
  "isVolumeURL exampleEnvironment ''volume://cache''"
  "\<not> isVolumeURL exampleEnvironment ''./app''"
  by (simp_all add: exampleEnvironment_def)

text \<open>
  Claim C7. For a forwarding session with a valid name the loop body returns the
  endpoint's own error when the source is a network URL, when it parses to a protocol
  other than the local one, when its endpoint is not TCP-based, and when the destination
  is no network URL; it yields a specification only for a local TCP-based source and a
  network destination. So a build that succeeds has checked every forwarding session;
  a build that does not succeed leaves the project and the stored specifications as
  they were; and when the session is the first thing to fail, its error is what the build
  returns. (A source whose path fails to parse again is excluded by the parsers'
  contract of claim C6.)
\<close>

theorem forwarding_endpoints_enforced:
  "(EnsureNameValid env name = None \<longrightarrow>
      (isNetworkURL env (fwdSource session) \<longrightarrow>
         processForwardingSession env defaults name session =
           Err (Errorf ''network URL (%s) not allowed as forwarding source''
                  [fwdSource session])) \<and>
      (\<forall>u. \<not> isNetworkURL env (fwdSource session) \<and>
           urlParse env (fwdSource session) Kind_Forwarding True = Inr u \<and>
           Protocol u \<noteq> Protocol_Local \<longrightarrow>
         processForwardingSession env defaults name session =
           Err (Errorf ''only local URLs allowed as forwarding sources'' [])) \<and>
      (\<forall>u protocol address.
           \<not> isNetworkURL env (fwdSource session) \<and>
           urlParse env (fwdSource session) Kind_Forwarding True = Inr u \<and>
           Protocol u = Protocol_Local \<and>
           forwardingurlParse env (Path u) = Inr (protocol, address) \<and>
           \<not> isTCPForwardingProtocol env protocol \<longrightarrow>
         processForwardingSession env defaults name session =
           Err (Errorf ''non-TCP-based forwarding endpoint (%s) unsupported'' [Path u])) \<and>
      (sourceIsLocalTCP env (fwdSource session) \<and>
       \<not> isNetworkURL env (fwdDestination session) \<longrightarrow>
         processForwardingSession env defaults name session =
           Err (Errorf ''forwarding destination (%s) should be a network URL''
                  [fwdDestination session]))) \<and>
   (\<forall>c network.
      processForwardingSession env defaults name session = Ok (c, network) \<longrightarrow>
      sourceIsLocalTCP env (fwdSource session) \<and> isNetworkURL env (fwdDestination session)) \<and>
   (processProject env l (Some p) = (Ok (), p', l', t) \<and> decodeSessions env p = Ok decoded \<longrightarrow>
      (\<forall>(n, s) \<in> set (forwardingSessionsOf decoded).
         sourceIsLocalTCP env (fwdSource s) \<and> isNetworkURL env (fwdDestination s))) \<and>
   (\<forall>r. processProject env l (Some p) = (r, p', l', t) \<and> r \<noteq> Ok () \<longrightarrow>
        p' = Some p \<and> l' = l) \<and>
   (\<not> (\<exists>service \<in> set (Services p). ServiceName service = sidecarServiceName env) \<and>
    Info env = Inr osType \<and>
    decodeSessions env p = Ok decoded \<and>
    forwardingDefaults env (Forwarding decoded) = Ok (df, pre @ (name, session) # post) \<and>
    synchronizationDefaults env (Synchronization decoded) = Ok sd \<and>
    (\<forall>(n, s) \<in> set pre. \<exists>r. processForwardingSession env df n s = Ok r) \<and>
    processForwardingSession env df name session = Err e \<longrightarrow>
      processProject env l (Some p) = (Err e, Some p, l, [(Docker_Info, Metadata osType)]))"
proof (intro conjI)
  show "EnsureNameValid env name = None \<longrightarrow>
      (isNetworkURL env (fwdSource session) \<longrightarrow>
         processForwardingSession env defaults name session =
           Err (Errorf ''network URL (%s) not allowed as forwarding source''
                  [fwdSource session])) \<and>
      (\<forall>u. \<not> isNetworkURL env (fwdSource session) \<and>
           urlParse env (fwdSource session) Kind_Forwarding True = Inr u \<and>
           Protocol u \<noteq> Protocol_Local \<longrightarrow>
         processForwardingSession env defaults name session =
           Err (Errorf ''only local URLs allowed as forwarding sources'' [])) \<and>
      (\<forall>u protocol address.
           \<not> isNetworkURL env (fwdSource session) \<and>
           urlParse env (fwdSource session) Kind_Forwarding True = Inr u \<and>
           Protocol u = Protocol_Local \<and>
           forwardingurlParse env (Path u) = Inr (protocol, address) \<and>
           \<not> isTCPForwardingProtocol env protocol \<longrightarrow>
         processForwardingSession env defaults name session =
           Err (Errorf ''non-TCP-based forwarding endpoint (%s) unsupported'' [Path u])) \<and>
      (sourceIsLocalTCP env (fwdSource session) \<and>
       \<not> isNetworkURL env (fwdDestination session) \<longrightarrow>
         processForwardingSession env defaults name session =
           Err (Errorf ''forwarding destination (%s) should be a network URL''
                  [fwdDestination session]))"
    by (rule impI) (rule processForwardingSession_errors)
next
  show "\<forall>c network.
      processForwardingSession env defaults name session = Ok (c, network) \<longrightarrow>
      sourceIsLocalTCP env (fwdSource session) \<and> isNetworkURL env (fwdDestination session)"
    by (cases defaults) (auto dest: processForwardingSession_Ok)
next
  show "processProject env l (Some p) = (Ok (), p', l', t) \<and> decodeSessions env p = Ok decoded \<longrightarrow>
      (\<forall>(n, s) \<in> set (forwardingSessionsOf decoded).
         sourceIsLocalTCP env (fwdSource s) \<and> isNetworkURL env (fwdDestination s))"
  proof (intro impI, elim conjE)
    assume run: "processProject env l (Some p) = (Ok (), p', l', t)"
      and dec: "decodeSessions env p = Ok decoded"
    from processProject_Ok_sessions [OF run dec] obtain df nets where
      "forwardingLoop env df (forwardingSessionsOf decoded) [] [] = Ok (forwarding l', nets)"
      by blast
    from forwardingLoop_Ok_all [OF this]
    show "\<forall>(n, s) \<in> set (forwardingSessionsOf decoded).
         sourceIsLocalTCP env (fwdSource s) \<and> isNetworkURL env (fwdDestination s)"
      by (cases df) (auto dest!: bspec dest: processForwardingSession_Ok)
  qed
next
  show "\<forall>r. processProject env l (Some p) = (r, p', l', t) \<and> r \<noteq> Ok () \<longrightarrow>
        p' = Some p \<and> l' = l"
    using processProject_failure by blast
next
  show "\<not> (\<exists>service \<in> set (Services p). ServiceName service = sidecarServiceName env) \<and>
    Info env = Inr osType \<and>
    decodeSessions env p = Ok decoded \<and>
    forwardingDefaults env (Forwarding decoded) = Ok (df, pre @ (name, session) # post) \<and>
    synchronizationDefaults env (Synchronization decoded) = Ok sd \<and>
    (\<forall>(n, s) \<in> set pre. \<exists>r. processForwardingSession env df n s = Ok r) \<and>
    processForwardingSession env df name session = Err e \<longrightarrow>
      processProject env l (Some p) = (Err e, Some p, l, [(Docker_Info, Metadata osType)])"
    by (intro impI, elim conjE, rule processProject_forwarding_error)
qed

theorem forwarding_endpoints_enforced_witness:
  "sourceIsLocalTCP exampleEnvironment ''tcp:localhost:8080'' \<and>
   isNetworkURL exampleEnvironment ''network://backend:tcp:web:80'' \<and>
   processForwardingSession exampleEnvironment (Map.empty, Map.empty, Map.empty) ''web''
     (exampleWebSession\<lparr>fwdSource := ''network://backend:tcp:web:80''\<rparr>) =
     Err (Errorf ''network URL (%s) not allowed as forwarding source''
            [''network://backend:tcp:web:80''])"
proof -
  note t = forwarding_endpoints_enforced [where env = exampleEnvironment and l = emptyLiaison
      and p = exampleProject and decoded = exampleSessions and name = "''web''"
      and session = "exampleWebSession\<lparr>fwdSource := ''network://backend:tcp:web:80''\<rparr>"
      and defaults = "(Map.empty, Map.empty, Map.empty)"]
  from t [THEN conjunct1] example_accessors
  have 1: "processForwardingSession exampleEnvironment (Map.empty, Map.empty, Map.empty) ''web''
     (exampleWebSession\<lparr>fwdSource := ''network://backend:tcp:web:80''\<rparr>) =
     Err (Errorf ''network URL (%s) not allowed as forwarding source''
            [''network://backend:tcp:web:80''])"
    by simp
  from t [THEN conjunct2, THEN conjunct2, THEN conjunct1] example_processProject example_decode
  have "\<forall>(n, s) \<in> set (forwardingSessionsOf exampleSessions).
         sourceIsLocalTCP exampleEnvironment (fwdSource s) \<and>
         isNetworkURL exampleEnvironment (fwdDestination s)"
    by blast
  then have 2: "sourceIsLocalTCP exampleEnvironment ''tcp:localhost:8080''"
    "isNetworkURL exampleEnvironment ''network://backend:tcp:web:80''"
    by (simp_all add: example_sessionsOf exampleWebSession_def)
  from 1 2 show ?thesis by simp
qed

section \<open>Synchronization endpoints\<close>

text \<open>
  Claim C8. For a synchronization session with a valid name the loop body returns the
  error naming the session when neither URL is a volume URL and when both are; it yields
  a specification only when exactly one is. So a build that succeeds has exactly one
  volume endpoint in every synchronization session; a build that does not succeed stores
  no specification and leaves the project as it was; and when the session is the first
  thing to fail, its error is what the build returns.
\<close>

theorem exactly_one_volume_endpoint:
  "(EnsureNameValid env name = None \<longrightarrow>
      (\<not> isVolumeURL env (syncAlpha session) \<and> \<not> isVolumeURL env (syncBeta session) \<longrightarrow>
         processSynchronizationSession env p osType defaults name session =
           Err (Errorf
             ''neither alpha nor beta references a volume in synchronization session (%s)''
             [name])) \<and>
      (isVolumeURL env (syncAlpha session) \<and> isVolumeURL env (syncBeta session) \<longrightarrow>
         processSynchronizationSession env p osType defaults name session =
           Err (Errorf
             ''both alpha and beta reference volumes in synchronization session (%s)''
             [name]))) \<and>
   (\<forall>c volumes.
      processSynchronizationSession env p osType defaults name session = Ok (c, volumes) \<longrightarrow>
      isVolumeURL env (syncAlpha session) \<noteq> isVolumeURL env (syncBeta session)) \<and>
   (processProject env l (Some p) = (Ok (), p', l', t) \<and> decodeSessions env p = Ok decoded \<longrightarrow>
      (\<forall>(n, s) \<in> set (synchronizationSessionsOf decoded).
         isVolumeURL env (syncAlpha s) \<noteq> isVolumeURL env (syncBeta s))) \<and>
   (\<forall>r. processProject env l (Some p) = (r, p', l', t) \<and> r \<noteq> Ok () \<longrightarrow>
        p' = Some p \<and> l' = l) \<and>
   (\<not> (\<exists>service \<in> set (Services p). ServiceName service = sidecarServiceName env) \<and>
    Info env = Inr osType \<and>
    decodeSessions env p = Ok decoded \<and>
    forwardingDefaults env (Forwarding decoded) = Ok (df, fe) \<and>
    synchronizationDefaults env (Synchronization decoded) =
      Ok (ds, pre @ (name, session) # post) \<and>
    forwardingLoop env df fe [] [] = Ok fr \<and>
    (\<forall>(n, s) \<in> set pre. \<exists>r. processSynchronizationSession env p osType ds n s = Ok r) \<and>
    processSynchronizationSession env p osType ds name session = Err e \<longrightarrow>
      processProject env l (Some p) = (Err e, Some p, l, [(Docker_Info, Metadata osType)]))"
proof (intro conjI)
  show "EnsureNameValid env name = None \<longrightarrow>
      (\<not> isVolumeURL env (syncAlpha session) \<and> \<not> isVolumeURL env (syncBeta session) \<longrightarrow>
         processSynchronizationSession env p osType defaults name session =
           Err (Errorf
             ''neither alpha nor beta references a volume in synchronization session (%s)''
             [name])) \<and>
      (isVolumeURL env (syncAlpha session) \<and> isVolumeURL env (syncBeta session) \<longrightarrow>
         processSynchronizationSession env p osType defaults name session =
           Err (Errorf
             ''both alpha and beta reference volumes in synchronization session (%s)''
             [name]))"
    by (rule impI) (rule processSynchronizationSession_errors)
next
  show "\<forall>c volumes.
      processSynchronizationSession env p osType defaults name session = Ok (c, volumes) \<longrightarrow>
      isVolumeURL env (syncAlpha session) \<noteq> isVolumeURL env (syncBeta session)"
    by (cases defaults) (auto dest: processSynchronizationSession_Ok)
next
  show "processProject env l (Some p) = (Ok (), p', l', t) \<and> decodeSessions env p = Ok decoded \<longrightarrow>
      (\<forall>(n, s) \<in> set (synchronizationSessionsOf decoded).
         isVolumeURL env (syncAlpha s) \<noteq> isVolumeURL env (syncBeta s))"
  proof (intro impI, elim conjE)
    assume run: "processProject env l (Some p) = (Ok (), p', l', t)"
      and dec: "decodeSessions env p = Ok decoded"
    from processProject_Ok_sessions [OF run dec] obtain os ds vols where
      "synchronizationLoop env p os ds (synchronizationSessionsOf decoded) [] [] =
         Ok (synchronization l', vols)"
      by blast
    from synchronizationLoop_Ok_all [OF this]
    show "\<forall>(n, s) \<in> set (synchronizationSessionsOf decoded).
         isVolumeURL env (syncAlpha s) \<noteq> isVolumeURL env (syncBeta s)"
      by (cases ds) (auto dest!: bspec dest: processSynchronizationSession_Ok)
  qed
next
  show "\<forall>r. processProject env l (Some p) = (r, p', l', t) \<and> r \<noteq> Ok () \<longrightarrow>
        p' = Some p \<and> l' = l"
    using processProject_failure by blast
next
  show "\<not> (\<exists>service \<in> set (Services p). ServiceName service = sidecarServiceName env) \<and>
    Info env = Inr osType \<and>
    decodeSessions env p = Ok decoded \<and>
    forwardingDefaults env (Forwarding decoded) = Ok (df, fe) \<and>
    synchronizationDefaults env (Synchronization decoded) =
      Ok (ds, pre @ (name, session) # post) \<and>
    forwardingLoop env df fe [] [] = Ok fr \<and>
    (\<forall>(n, s) \<in> set pre. \<exists>r. processSynchronizationSession env p osType ds n s = Ok r) \<and>
    processSynchronizationSession env p osType ds name session = Err e \<longrightarrow>
      processProject env l (Some p) = (Err e, Some p, l, [(Docker_Info, Metadata osType)])"
    by (intro impI, elim conjE, rule processProject_synchronization_error)
qed

theorem exactly_one_volume_endpoint_witness:
  "isVolumeURL exampleEnvironment ''./app'' \<noteq> isVolumeURL exampleEnvironment ''volume://cache'' \<and>
   processSynchronizationSession exampleEnvironment exampleProject ''linux''
     (Map.empty, Map.empty, Map.empty) ''data''
     (exampleDataSession\<lparr>syncAlpha := ''volume://cache''\<rparr>) =
     Err (Errorf ''both alpha and beta reference volumes in synchronization session (%s)''
            [''data'']) \<and>
   processSynchronizationSession exampleEnvironment exampleProject ''linux''
     (Map.empty, Map.empty, Map.empty) ''data''
     (exampleDataSession\<lparr>syncBeta := ''./app''\<rparr>) =
     Err (Errorf
            ''neither alpha nor beta references a volume in synchronization session (%s)''
            [''data''])"
proof -
  note t = exactly_one_volume_endpoint [where env = exampleEnvironment and l = emptyLiaison
      and p = exampleProject and decoded = exampleSessions and name = "''data''"
      and osType = "''linux''" and defaults = "(Map.empty, Map.empty, Map.empty)"]
  from t [where session = "exampleDataSession\<lparr>syncAlpha := ''volume://cache''\<rparr>",
      THEN conjunct1] example_accessors
  have 1: "processSynchronizationSession exampleEnvironment exampleProject ''linux''
     (Map.empty, Map.empty, Map.empty) ''data''
     (exampleDataSession\<lparr>syncAlpha := ''volume://cache''\<rparr>) =
     Err (Errorf ''both alpha and beta reference volumes in synchronization session (%s)''
            [''data''])"
    by (simp add: exampleDataSession_def)
  from t [where session = "exampleDataSession\<lparr>syncBeta := ''./app''\<rparr>",
      THEN conjunct1] example_accessors
  have 2: "processSynchronizationSession exampleEnvironment exampleProject ''linux''
     (Map.empty, Map.empty, Map.empty) ''data''
     (exampleDataSession\<lparr>syncBeta := ''./app''\<rparr>) =
     Err (Errorf
            ''neither alpha nor beta references a volume in synchronization session (%s)''
            [''data''])"
    by (simp add: exampleDataSession_def)
  from t [where session = exampleDataSession, THEN conjunct2, THEN conjunct2, THEN conjunct1]
    example_processProject example_decode
  have "\<forall>(n, s) \<in> set (synchronizationSessionsOf exampleSessions).
         isVolumeURL exampleEnvironment (syncAlpha s) \<noteq>
         isVolumeURL exampleEnvironment (syncBeta s)"
    by blast
  then have 3: "isVolumeURL exampleEnvironment ''./app'' \<noteq>
      isVolumeURL exampleEnvironment ''volume://cache''"
    by (simp add: example_sessionsOf exampleDataSession_def)
  from 1 2 3 show ?thesis by simp
qed

section \<open>Configuration layers\<close>

lemma MergeConfigurations_layered: "MergeConfigurations lower higher = layered lower higher"
  by (auto simp: MergeConfigurations_def layered_def fun_eq_iff map_add_def
      split: option.splits)

lemma forwardingLoop_keeps:
  "forwardingLoop env d entries specs nets = Ok (specs', nets') \<Longrightarrow>
     n \<notin> fst ` set entries \<Longrightarrow> map_of specs' n = map_of specs n"
proof (induction entries arbitrary: specs nets)
  case Nil
  then show ?case by simp
next
  case (Cons a entries)
  obtain name session where a: "a = (name, session)" by (cases a) auto
  from Cons.prems(1) a obtain c network where
    rest: "forwardingLoop env d entries (AList.update name c specs)
                 (List.insert network nets) = Ok (specs', nets')"
    by (auto split: result.splits prod.splits)
  from Cons.IH [OF rest] Cons.prems(2) a show ?case
    by (simp add: update_conv')
qed

lemma forwardingLoop_lookup:
  "forwardingLoop env d entries specs nets = Ok (specs', nets') \<Longrightarrow>
     distinct (map fst entries) \<Longrightarrow> (n, s) \<in> set entries \<Longrightarrow>
     \<exists>c network. processForwardingSession env d n s = Ok (c, network) \<and>
                 map_of specs' n = Some c"
proof (induction entries arbitrary: specs nets)
  case Nil
  then show ?case by simp
next
  case (Cons a entries)
  obtain name session where a: "a = (name, session)" by (cases a) auto
  from Cons.prems(1) a obtain c network where
    ok: "processForwardingSession env d name session = Ok (c, network)"
    and rest: "forwardingLoop env d entries (AList.update name c specs)
                 (List.insert network nets) = Ok (specs', nets')"
    by (auto split: result.splits prod.splits)
  show ?case
  proof (cases "(n, s) = (name, session)")
    case True
    from Cons.prems(2) a have "name \<notin> fst ` set entries" by auto
    from forwardingLoop_keeps [OF rest this] ok True show ?thesis
      by (simp add: update_conv')
  next
    case False
    with Cons.prems a have "distinct (map fst entries)" "(n, s) \<in> set entries" by auto
    from Cons.IH [OF rest this] show ?thesis .
  qed
qed

lemma synchronizationLoop_keeps:
  "synchronizationLoop env p osType d entries specs vols = Ok (specs', vols') \<Longrightarrow>
     n \<notin> fst ` set entries \<Longrightarrow> map_of specs' n = map_of specs n"
proof (induction entries arbitrary: specs vols)
  case Nil
  then show ?case by simp
next
  case (Cons a entries)
  obtain name session where a: "a = (name, session)" by (cases a) auto
  from Cons.prems(1) a obtain c volumes where
    rest: "synchronizationLoop env p osType d entries (AList.update name c specs)
                 (fold List.insert volumes vols) = Ok (specs', vols')"
    by (auto split: result.splits prod.splits)
  from Cons.IH [OF rest] Cons.prems(2) a show ?case
    by (simp add: update_conv')
qed

lemma synchronizationLoop_lookup:
  "synchronizationLoop env p osType d entries specs vols = Ok (specs', vols') \<Longrightarrow>
     distinct (map fst entries) \<Longrightarrow> (n, s) \<in> set entries \<Longrightarrow>
     \<exists>c volumes. processSynchronizationSession env p osType d n s = Ok (c, volumes) \<and>
                 map_of specs' n = Some c"
proof (induction entries arbitrary: specs vols)
  case Nil
  then show ?case by simp
next
  case (Cons a entries)
  obtain name session where a: "a = (name, session)" by (cases a) auto
  from Cons.prems(1) a obtain c volumes where
    ok: "processSynchronizationSession env p osType d name session = Ok (c, volumes)"
    and rest: "synchronizationLoop env p osType d entries (AList.update name c specs)
                 (fold List.insert volumes vols) = Ok (specs', vols')"
    by (auto split: result.splits prod.splits)
  show ?case
  proof (cases "(n, s) = (name, session)")
    case True
    from Cons.prems(2) a have "name \<notin> fst ` set entries" by auto
    from synchronizationLoop_keeps [OF rest this] ok True show ?thesis
      by (simp add: update_conv')
  next
    case False
    with Cons.prems a have "distinct (map fst entries)" "(n, s) \<in> set entries" by auto
    from Cons.IH [OF rest this] show ?thesis .
  qed
qed

lemma forwarding_layers:
  assumes run: "processProject env l (Some p) = (Ok (), p', l', t)"
    and dec: "decodeSessions env p = Ok decoded"
    and dist: "distinct (map fst (Forwarding decoded))"
    and mem: "(name, session) \<in> set (forwardingSessionsOf decoded)"
  shows "\<exists>c. map_of (forwarding l') name = Some c \<and>
     Configuration c =
       layered (defaultsLayer fwdConfiguration (Forwarding decoded))
         (fwdConfiguration session) \<and>
     ConfigurationSource c =
       layered (defaultsLayer fwdConfigurationSource (Forwarding decoded))
         (fwdConfigurationSource session) \<and>
     ConfigurationDestination c =
       layered (defaultsLayer fwdConfigurationDestination (Forwarding decoded))
         (fwdConfigurationDestination session)"
proof -
  from processProject_Ok_sessions [OF run dec] obtain df nets where
    d: "forwardingDefaults env (Forwarding decoded) = Ok (df, forwardingSessionsOf decoded)"
    and loop: "forwardingLoop env df (forwardingSessionsOf decoded) [] [] =
                 Ok (forwarding l', nets)"
    by blast
  obtain dc ds dd where df: "df = (dc, ds, dd)" by (cases df) auto
  from forwardingDefaults_Ok [OF d] df
  have layers: "dc = defaultsLayer fwdConfiguration (Forwarding decoded)"
    "ds = defaultsLayer fwdConfigurationSource (Forwarding decoded)"
    "dd = defaultsLayer fwdConfigurationDestination (Forwarding decoded)"
    by (auto simp: defaultsLayer_def split: option.splits)
  from dist have "distinct (map fst (forwardingSessionsOf decoded))"
    by (simp add: forwardingSessionsOf_def distinct_delete)
  from forwardingLoop_lookup [OF loop this mem] df obtain c network where
    ok: "processForwardingSession env (dc, ds, dd) name session = Ok (c, network)"
    and look: "map_of (forwarding l') name = Some c"
    by auto
  from processForwardingSession_Ok [OF ok] look layers show ?thesis
    by (simp add: MergeConfigurations_layered)
qed

lemma synchronization_layers:
  assumes run: "processProject env l (Some p) = (Ok (), p', l', t)"
    and dec: "decodeSessions env p = Ok decoded"
    and dist: "distinct (map fst (Synchronization decoded))"
    and mem: "(name, session) \<in> set (synchronizationSessionsOf decoded)"
  shows "\<exists>c. map_of (synchronization l') name = Some c \<and>
     Configuration c =
       layered (defaultsLayer syncConfiguration (Synchronization decoded))
         (syncConfiguration session) \<and>
     ConfigurationAlpha c =
       layered (defaultsLayer syncConfigurationAlpha (Synchronization decoded))
         (syncConfigurationAlpha session) \<and>
     ConfigurationBeta c =
       layered (defaultsLayer syncConfigurationBeta (Synchronization decoded))
         (syncConfigurationBeta session)"
proof -
  from processProject_Ok_sessions [OF run dec] obtain os dsy vols where
    d: "synchronizationDefaults env (Synchronization decoded) =
          Ok (dsy, synchronizationSessionsOf decoded)"
    and loop: "synchronizationLoop env p os dsy (synchronizationSessionsOf decoded) [] [] =
                 Ok (synchronization l', vols)"
    by blast
  obtain dc da db where dsy: "dsy = (dc, da, db)" by (cases dsy) auto
  from synchronizationDefaults_Ok [OF d] dsy
  have layers: "dc = defaultsLayer syncConfiguration (Synchronization decoded)"
    "da = defaultsLayer syncConfigurationAlpha (Synchronization decoded)"
    "db = defaultsLayer syncConfigurationBeta (Synchronization decoded)"
    by (auto simp: defaultsLayer_def split: option.splits)
  from dist have "distinct (map fst (synchronizationSessionsOf decoded))"
    by (simp add: synchronizationSessionsOf_def distinct_delete)
  from synchronizationLoop_lookup [OF loop this mem] dsy obtain c volumes where
    ok: "processSynchronizationSession env p os (dc, da, db) name session = Ok (c, volumes)"
    and look: "map_of (synchronization l') name = Some c"
    by auto
  from processSynchronizationSession_Ok [OF ok] look layers show ?thesis
    by (simp add: MergeConfigurations_layered)
qed

text \<open>
  Claim C4, amended. The build merges two layers, slot by slot: in every stored
  specification each of the three configurations (the session's own and the two
  endpoint-specific ones) is the session entry's configuration of that slot layered over
  the \<^verbatim>\<open>defaults\<close> entry's configuration of the same slot, so the session's field wins
  over the default's and a field unset in both stays unset. The build never layers one
  slot over another. (Session names are the keys of a map, hence distinct.)
\<close>

theorem configuration_merge_two_layers:
  "(processProject env l (Some p) = (Ok (), p', l', t) \<and> decodeSessions env p = Ok decoded \<and>
    distinct (map fst (Forwarding decoded)) \<longrightarrow>
      (\<forall>(name, session) \<in> set (forwardingSessionsOf decoded).
         \<exists>c. map_of (forwarding l') name = Some c \<and>
           Configuration c =
             layered (defaultsLayer fwdConfiguration (Forwarding decoded))
               (fwdConfiguration session) \<and>
           ConfigurationSource c =
             layered (defaultsLayer fwdConfigurationSource (Forwarding decoded))
               (fwdConfigurationSource session) \<and>
           ConfigurationDestination c =
             layered (defaultsLayer fwdConfigurationDestination (Forwarding decoded))
               (fwdConfigurationDestination session))) \<and>
   (processProject env l (Some p) = (Ok (), p', l', t) \<and> decodeSessions env p = Ok decoded \<and>
    distinct (map fst (Synchronization decoded)) \<longrightarrow>
      (\<forall>(name, session) \<in> set (synchronizationSessionsOf decoded).
         \<exists>c. map_of (synchronization l') name = Some c \<and>
           Configuration c =
             layered (defaultsLayer syncConfiguration (Synchronization decoded))
               (syncConfiguration session) \<and>
           ConfigurationAlpha c =
             layered (defaultsLayer syncConfigurationAlpha (Synchronization decoded))
               (syncConfigurationAlpha session) \<and>
           ConfigurationBeta c =
             layered (defaultsLayer syncConfigurationBeta (Synchronization decoded))
               (syncConfigurationBeta session))) \<and>
   (\<forall>lower higher field.
      layered lower higher field = None \<longleftrightarrow> lower field = None \<and> higher field = None)"
proof (intro conjI)
  show "processProject env l (Some p) = (Ok (), p', l', t) \<and> decodeSessions env p = Ok decoded \<and>
    distinct (map fst (Forwarding decoded)) \<longrightarrow>
      (\<forall>(name, session) \<in> set (forwardingSessionsOf decoded).
         \<exists>c. map_of (forwarding l') name = Some c \<and>
           Configuration c =
             layered (defaultsLayer fwdConfiguration (Forwarding decoded))
               (fwdConfiguration session) \<and>
           ConfigurationSource c =
             layered (defaultsLayer fwdConfigurationSource (Forwarding decoded))
               (fwdConfigurationSource session) \<and>
           ConfigurationDestination c =
             layered (defaultsLayer fwdConfigurationDestination (Forwarding decoded))
               (fwdConfigurationDestination session))"
    using forwarding_layers [of env l p p' l' t decoded] by fast
next
  show "processProject env l (Some p) = (Ok (), p', l', t) \<and> decodeSessions env p = Ok decoded \<and>
    distinct (map fst (Synchronization decoded)) \<longrightarrow>
      (\<forall>(name, session) \<in> set (synchronizationSessionsOf decoded).
         \<exists>c. map_of (synchronization l') name = Some c \<and>
           Configuration c =
             layered (defaultsLayer syncConfiguration (Synchronization decoded))
               (syncConfiguration session) \<and>
           ConfigurationAlpha c =
             layered (defaultsLayer syncConfigurationAlpha (Synchronization decoded))
               (syncConfigurationAlpha session) \<and>
           ConfigurationBeta c =
             layered (defaultsLayer syncConfigurationBeta (Synchronization decoded))
               (syncConfigurationBeta session))"
    using synchronization_layers [of env l p p' l' t decoded] by fast
next
  show "\<forall>lower higher field.
      layered lower higher field = None \<longleftrightarrow> lower field = None \<and> higher field = None"
    by (auto simp: layered_def split: option.splits)
qed

theorem configuration_merge_two_layers_witness:
  "\<exists>p' l' t c.
     processProject exampleEnvironment emptyLiaison (Some exampleProject) = (Ok (), p', l', t) \<and>
     map_of (forwarding l') ''web'' = Some c \<and>
     Configuration c ''socketOverwriteMode'' = Some ''global'' \<and>
     ConfigurationSource c ''socketOwner'' = Some ''session'' \<and>
     ConfigurationSource c ''socketOverwriteMode'' = None \<and>
     ConfigurationDestination c ''socketOwner'' = None"
proof -
  have dist: "distinct (map fst (Forwarding exampleSessions))"
    by (simp add: exampleSessions_def)
  from configuration_merge_two_layers [where env = exampleEnvironment and l = emptyLiaison
      and p = exampleProject and decoded = exampleSessions, THEN conjunct1]
    example_processProject example_decode dist
  have "\<forall>(name, session) \<in> set (forwardingSessionsOf exampleSessions).
         \<exists>c. map_of (forwarding \<lparr>forwarding = [(''web'', exampleWeb)],
                       synchronization = [(''data'', exampleData)]\<rparr>) name = Some c \<and>
           Configuration c =
             layered (defaultsLayer fwdConfiguration (Forwarding exampleSessions))
               (fwdConfiguration session) \<and>
           ConfigurationSource c =
             layered (defaultsLayer fwdConfigurationSource (Forwarding exampleSessions))
               (fwdConfigurationSource session) \<and>
           ConfigurationDestination c =
             layered (defaultsLayer fwdConfigurationDestination (Forwarding exampleSessions))
               (fwdConfigurationDestination session)"
    by blast
  then have "Configuration exampleWeb =
             layered (defaultsLayer fwdConfiguration (Forwarding exampleSessions))
               (fwdConfiguration exampleWebSession) \<and>
           ConfigurationSource exampleWeb =
             layered (defaultsLayer fwdConfigurationSource (Forwarding exampleSessions))
               (fwdConfigurationSource exampleWebSession) \<and>
           ConfigurationDestination exampleWeb =
             layered (defaultsLayer fwdConfigurationDestination (Forwarding exampleSessions))
               (fwdConfigurationDestination exampleWebSession)"
    by (simp add: example_sessionsOf)
  then have f: "Configuration exampleWeb ''socketOverwriteMode'' = Some ''global''"
    "ConfigurationSource exampleWeb ''socketOwner'' = Some ''session''"
    "ConfigurationSource exampleWeb ''socketOverwriteMode'' = None"
    "ConfigurationDestination exampleWeb ''socketOwner'' = None"
    by (simp_all add: layered_def defaultsLayer_def exampleSessions_def
        exampleForwardingDefaults_def exampleWebSession_def)
  show ?thesis
    by (intro exI conjI)
      (rule example_processProject, simp, rule f(1), rule f(2), rule f(3), rule f(4))
qed

text \<open>
  The claim as stated fails on the example project: with a session-wide default for one
  field and a source default for another, neither the stored source configuration nor
  the stored session-wide configuration of \<open>web\<close> is the three-tier merge of global
  default, role default and override.
\<close>

theorem three_tier_merge_refuted:
  "\<exists>p' l' t c.
     processProject exampleEnvironment emptyLiaison (Some exampleProject) = (Ok (), p', l', t) \<and>
     map_of (forwarding l') ''web'' = Some c \<and>
     ConfigurationSource c \<noteq>
       threeTier (fwdConfiguration exampleForwardingDefaults)
         (fwdConfigurationSource exampleForwardingDefaults)
         (fwdConfigurationSource exampleWebSession) \<and>
     Configuration c \<noteq>
       threeTier (fwdConfiguration exampleForwardingDefaults)
         (fwdConfigurationSource exampleForwardingDefaults)
         (fwdConfiguration exampleWebSession)"
proof -
  have a: "ConfigurationSource exampleWeb ''socketOverwriteMode'' = None"
    "Configuration exampleWeb ''socketOwner'' = None"
    by (simp_all add: exampleWeb_def MergeConfigurations_def)
  have b: "threeTier (fwdConfiguration exampleForwardingDefaults)
         (fwdConfigurationSource exampleForwardingDefaults)
         (fwdConfigurationSource exampleWebSession) ''socketOverwriteMode'' = Some ''global''"
    "threeTier (fwdConfiguration exampleForwardingDefaults)
         (fwdConfigurationSource exampleForwardingDefaults)
         (fwdConfiguration exampleWebSession) ''socketOwner'' = Some ''role''"
    by (simp_all add: threeTier_def layered_def exampleForwardingDefaults_def
        exampleWebSession_def)
  from a b have "ConfigurationSource exampleWeb \<noteq>
       threeTier (fwdConfiguration exampleForwardingDefaults)
         (fwdConfigurationSource exampleForwardingDefaults)
         (fwdConfigurationSource exampleWebSession)"
    "Configuration exampleWeb \<noteq>
       threeTier (fwdConfiguration exampleForwardingDefaults)
         (fwdConfigurationSource exampleForwardingDefaults)
         (fwdConfiguration exampleWebSession)"
    by (metis option.distinct(1))+
  then show ?thesis
    by (intro exI conjI) (rule example_processProject, simp, assumption+)
qed

end
